theory Spec2Isabelle
  imports Main "HOL-Library.Word" "HOL-Library.Sublist"
begin

section \<open>The Milvus adapter of gptbot (milvus/milvus.go)\<close>

text \<open>
  The package wraps a Milvus client: \<open>NewMilvus\<close> connects and provisions a collection,
  \<open>Insert\<close> and \<open>LoadJSON\<close> send sections to it, \<open>Query\<close> searches it and reshapes the
  columnar answer. The client, the \<open>entity\<close> constructors, \<open>os.ReadFile\<close>,
  \<open>json.Unmarshal\<close> and the float conversions are not part of the package: they are
  parameters of the model. Every call the package makes on them is recorded, in order,
  in a log, together with the error the call returned; what a call answers may depend on
  everything that was called before. The \<open>context.Context\<close> argument is handed through to
  every call unchanged and is left out.
\<close>

subsection \<open>Machine types, errors and panics\<close>

text \<open>
  Go's \<open>int\<close> is taken at its width on the 64-bit targets; \<open>float32\<close> and \<open>float64\<close> are
  their bit patterns, and the two conversions between them are parameters.
\<close>

type_synonym int64 = "64 word"
type_synonym go_int = "64 word"
type_synonym float32 = "32 word"
type_synonym float64 = "64 word"

datatype error = Error string

datatype panic = NilDereference | IndexOutOfRange

datatype 'a outcome = Panicked panic | Returned 'a

definition idCol :: string where "idCol = ''id''"
definition titleCol :: string where "titleCol = ''title''"
definition headingCol :: string where "headingCol = ''heading''"
definition contentCol :: string where "contentCol = ''content''"
definition embeddingCol :: string where "embeddingCol = ''embedding''"

subsection \<open>The document model\<close>

text \<open>
  Modelled from the spec: the declarations of \<open>gptbot.Section\<close> and \<open>gptbot.Similarity\<close>
  are in the parent package. The spec gives a section a title, a heading, a content and an
  embedding vector, and a similarity a section, an id and a score; the field names are the
  ones milvus.go reads and writes.
\<close>

record Section =
  Title :: string
  Heading :: string
  Content :: string
  Embedding :: "float64 list"

record Similarity =
  Section :: Section
  ID :: go_int
  Score :: float64

subsection \<open>The types of the client library\<close>

datatype MetricType = L2 | IP | OtherMetric string

datatype FieldType = FieldTypeInt64 | FieldTypeVarChar | FieldTypeFloatVector | FieldTypeOther string

datatype ConsistencyLevel = ClStrong | ClSession | ClBounded | ClEventually | ClCustomized

datatype CreateCollectionOption = WithConsistencyLevel ConsistencyLevel

definition TypeParamMaxLength :: string where "TypeParamMaxLength = ''max_length''"
definition TypeParamDim :: string where "TypeParamDim = ''dim''"

text \<open>The fields of \<open>entity.Field\<close> and \<open>entity.Schema\<close> that the package sets; the
  others keep their zero value. \<open>TypeParams\<close> is a map with one entry each time.\<close>

record Field =
  Name :: string
  DataType :: FieldType
  PrimaryKey :: bool
  FieldAutoID :: bool
  TypeParams :: "(string \<times> string) list"

record Schema =
  SchemaCollectionName :: string
  AutoID :: bool
  Fields :: "Field list"

text \<open>An index descriptor and a search parameter are opaque values of the library.\<close>

datatype Index = Index string "(string \<times> string) list"

datatype SearchParam = SearchParam "(string \<times> string) list"

text \<open>\<open>entity.Column\<close> is an interface; the package builds and inspects three of its
  implementations. \<open>ColumnOther\<close> stands for every other implementation.\<close>

datatype Column =
    ColumnInt64 string "int64 list"
  | ColumnVarChar string "string list"
  | ColumnFloatVector string go_int "float32 list list"
  | ColumnOther string

fun ColumnName :: "Column \<Rightarrow> string" where
  "ColumnName (ColumnInt64 n _) = n"
| "ColumnName (ColumnVarChar n _) = n"
| "ColumnName (ColumnFloatVector n _ _) = n"
| "ColumnName (ColumnOther n) = n"

text \<open>The fields of \<open>client.SearchResult\<close> that the package reads.\<close>

record SearchResult =
  ResultCount :: go_int
  ResultFields :: "Column list"
  Scores :: "float32 list"

subsection \<open>Calls, the log, the client\<close>

datatype call =
    is_CallNewGrpcClient: CallNewGrpcClient string
  | is_CallReleaseCollection: CallReleaseCollection string
  | is_CallHasCollection: CallHasCollection string
  | is_CallCreateCollection: CallCreateCollection Schema int "CreateCollectionOption list"
  | is_CallCreateIndex: CallCreateIndex string string Index bool
  | is_CallInsert: CallInsert string string "Column list"
  | is_CallLoadCollection: CallLoadCollection string bool
  | is_CallSearch: CallSearch string "string list" string "string list" "float32 list list"
      string MetricType go_int "SearchParam option"
  | is_CallReadFile: CallReadFile string

type_synonym event = "call \<times> error option"

text \<open>
  \<open>client.Client\<close> is an interface: a value with methods. Each method sees the events so
  far. A method that returns a value and an error, where the package looks at the value
  only when the error is nil, returns a sum.
\<close>

record Client =
  client_ReleaseCollection :: "event list \<Rightarrow> string \<Rightarrow> error option"
  client_HasCollection :: "event list \<Rightarrow> string \<Rightarrow> error + bool"
  client_CreateCollection ::
    "event list \<Rightarrow> Schema \<Rightarrow> int \<Rightarrow> CreateCollectionOption list \<Rightarrow> error option"
  client_CreateIndex :: "event list \<Rightarrow> string \<Rightarrow> string \<Rightarrow> Index \<Rightarrow> bool \<Rightarrow> error option"
  client_Insert :: "event list \<Rightarrow> string \<Rightarrow> string \<Rightarrow> Column list \<Rightarrow> error + Column"
  client_LoadCollection :: "event list \<Rightarrow> string \<Rightarrow> bool \<Rightarrow> error option"
  client_Search ::
    "event list \<Rightarrow> string \<Rightarrow> string list \<Rightarrow> string \<Rightarrow> string list \<Rightarrow> float32 list list \<Rightarrow>
     string \<Rightarrow> MetricType \<Rightarrow> go_int \<Rightarrow> SearchParam option \<Rightarrow> error + SearchResult list"

text \<open>The package-level functions of the libraries. \<open>NewIndexFlatSearchParam\<close> returns
  its pair as it is, because \<open>Query\<close> drops the error and keeps the value.\<close>

record deps =
  NewGrpcClient :: "event list \<Rightarrow> string \<Rightarrow> error + Client"
  NewIndexIvfFlat :: "MetricType \<Rightarrow> go_int \<Rightarrow> error + Index"
  NewIndexFlatSearchParam :: "SearchParam option \<times> error option"
  ReadFile :: "event list \<Rightarrow> string \<Rightarrow> error + string"
  Unmarshal :: "string \<Rightarrow> error + Section list"
  float32_of_float64 :: "float64 \<Rightarrow> float32"
  float64_of_float32 :: "float32 \<Rightarrow> float64"

subsection \<open>Config, Milvus and the store\<close>

record Config =
  CollectionName :: string
  Addr :: string
  Dim :: go_int

text \<open>\<open>Milvus.cfg\<close> is a pointer to the caller's Config: an address of the store.\<close>

record Milvus =
  client :: Client
  cfg :: nat

text \<open>
  The store holds the Config values by address, the Milvus values by address (an
  allocation appends, so the new address is the old length) and the log. An address with
  no value behind it is the nil pointer.
\<close>

record state =
  configs :: "nat \<rightharpoonup> Config"
  milvuses :: "Milvus list"
  log :: "event list"

definition deref_Milvus :: "state \<Rightarrow> nat \<Rightarrow> Milvus option" where
  "deref_Milvus s m = (if m < length (milvuses s) then Some (milvuses s ! m) else None)"

definition alloc_Milvus :: "Milvus \<Rightarrow> state \<Rightarrow> nat \<times> state" where
  "alloc_Milvus v s = (length (milvuses s), s\<lparr>milvuses := milvuses s @ [v]\<rparr>)"

definition record_call :: "call \<Rightarrow> error option \<Rightarrow> state \<Rightarrow> state" where
  "record_call c e s = s\<lparr>log := log s @ [(c, e)]\<rparr>"

definition error_of :: "error + 'a \<Rightarrow> error option" where
  "error_of r = (case r of Inl e \<Rightarrow> Some e | Inr _ \<Rightarrow> None)"

text \<open>The events an operation added to the log, given the states before and after.\<close>

definition issued :: "state \<Rightarrow> state \<Rightarrow> event list" where
  "issued s s' = drop (length (log s)) (log s')"

subsection \<open>One function for each call site\<close>

definition call_NewGrpcClient :: "deps \<Rightarrow> string \<Rightarrow> state \<Rightarrow> (error + Client) \<times> state" where
  "call_NewGrpcClient d addr s =
     (let r = NewGrpcClient d (log s) addr
      in (r, record_call (CallNewGrpcClient addr) (error_of r) s))"

definition call_ReadFile :: "deps \<Rightarrow> string \<Rightarrow> state \<Rightarrow> (error + string) \<times> state" where
  "call_ReadFile d filename s =
     (let r = ReadFile d (log s) filename
      in (r, record_call (CallReadFile filename) (error_of r) s))"

definition call_ReleaseCollection :: "Client \<Rightarrow> string \<Rightarrow> state \<Rightarrow> error option \<times> state" where
  "call_ReleaseCollection c name s =
     (let r = client_ReleaseCollection c (log s) name
      in (r, record_call (CallReleaseCollection name) r s))"

definition call_HasCollection :: "Client \<Rightarrow> string \<Rightarrow> state \<Rightarrow> (error + bool) \<times> state" where
  "call_HasCollection c name s =
     (let r = client_HasCollection c (log s) name
      in (r, record_call (CallHasCollection name) (error_of r) s))"

definition call_CreateCollection ::
  "Client \<Rightarrow> Schema \<Rightarrow> int \<Rightarrow> CreateCollectionOption list \<Rightarrow> state \<Rightarrow> error option \<times> state" where
  "call_CreateCollection c schema shards opts s =
     (let r = client_CreateCollection c (log s) schema shards opts
      in (r, record_call (CallCreateCollection schema shards opts) r s))"

definition call_CreateIndex ::
  "Client \<Rightarrow> string \<Rightarrow> string \<Rightarrow> Index \<Rightarrow> bool \<Rightarrow> state \<Rightarrow> error option \<times> state" where
  "call_CreateIndex c name field idx async s =
     (let r = client_CreateIndex c (log s) name field idx async
      in (r, record_call (CallCreateIndex name field idx async) r s))"

definition call_Insert ::
  "Client \<Rightarrow> string \<Rightarrow> string \<Rightarrow> Column list \<Rightarrow> state \<Rightarrow> (error + Column) \<times> state" where
  "call_Insert c name part columns s =
     (let r = client_Insert c (log s) name part columns
      in (r, record_call (CallInsert name part columns) (error_of r) s))"

definition call_LoadCollection :: "Client \<Rightarrow> string \<Rightarrow> bool \<Rightarrow> state \<Rightarrow> error option \<times> state" where
  "call_LoadCollection c name async s =
     (let r = client_LoadCollection c (log s) name async
      in (r, record_call (CallLoadCollection name async) r s))"

definition call_Search ::
  "Client \<Rightarrow> string \<Rightarrow> string list \<Rightarrow> string \<Rightarrow> string list \<Rightarrow> float32 list list \<Rightarrow> string \<Rightarrow>
   MetricType \<Rightarrow> go_int \<Rightarrow> SearchParam option \<Rightarrow> state \<Rightarrow> (error + SearchResult list) \<times> state" where
  "call_Search c name partitions expr outputs vectors field metric topK param s =
     (let r = client_Search c (log s) name partitions expr outputs vectors field metric topK param
      in (r, record_call
               (CallSearch name partitions expr outputs vectors field metric topK param)
               (error_of r) s))"

subsection \<open>Config.init\<close>

definition Config_init :: "Config \<Rightarrow> Config" where
  "Config_init c =
     (let c1 = (if Addr c = [] then c\<lparr>Addr := ''localhost:19530''\<rparr> else c);
          c2 = (if Dim c1 = 0 then c1\<lparr>Dim := 1536\<rparr> else c1)
      in c2)"

text \<open>The method has a pointer receiver: it reads and writes the Config behind \<open>p\<close>.\<close>

definition init :: "nat \<Rightarrow> state \<Rightarrow> unit outcome \<times> state" where
  "init p s =
     (case configs s p of
        None \<Rightarrow> (Panicked NilDereference, s)
      | Some c \<Rightarrow> (Returned (), s\<lparr>configs := (configs s)(p \<mapsto> Config_init c)\<rparr>))"

subsection \<open>fmt.Sprintf("%d", n)\<close>

text \<open>The decimal digit of a number below ten.\<close>

definition digit :: "nat \<Rightarrow> char" where
  "digit n = ''0123456789'' ! n"

function decimal :: "nat \<Rightarrow> string" where
  "decimal n = (if n < 10 then [digit n] else decimal (n div 10) @ [digit (n mod 10)])"
  by pat_completeness auto
termination
  by (relation "measure id") auto

definition Sprintf_d :: "int \<Rightarrow> string" where
  "Sprintf_d n = (if n < 0 then CHR ''-'' # decimal (nat (- n)) else decimal (nat n))"

subsection \<open>Insert\<close>

text \<open>\<open>xslices.Float64ToNumber[float32]\<close> converts a slice element by element.\<close>

definition Float64ToNumber :: "(float64 \<Rightarrow> float32) \<Rightarrow> float64 list \<Rightarrow> float32 list" where
  "Float64ToNumber conv xs = map conv xs"

text \<open>
  The loop of \<open>Insert\<close> over \<open>sections\<close>: \<open>i\<close> is the index of the section at the head of
  what is left, and the five slices grow by one entry each round. \<open>int64(i)\<close> of an index
  is \<open>of_nat i\<close>; it is the number \<open>i\<close> as long as \<open>i\<close> is below \<open>2 ^ 63\<close>, which the
  length of a Go slice always is.
\<close>

type_synonym columns_data =
  "int64 list \<times> string list \<times> string list \<times> string list \<times> float32 list list"

fun collect :: "(float64 \<Rightarrow> float32) \<Rightarrow> nat \<Rightarrow> Section list \<Rightarrow> columns_data \<Rightarrow> columns_data" where
  "collect conv i [] acc = acc"
| "collect conv i (section # rest) (ids, titles, headings, contents, embeddings) =
     collect conv (Suc i) rest
       (ids @ [of_nat i],
        titles @ [Title section],
        headings @ [Heading section],
        contents @ [Content section],
        embeddings @ [Float64ToNumber conv (Embedding section)])"

text \<open>
  \<open>m\<close> is the receiver, a pointer to a Milvus. \<open>m.client\<close> and \<open>m.cfg.CollectionName\<close> are
  read before the first call; no call writes the store, so they are read once.
\<close>

definition receiver :: "state \<Rightarrow> nat \<Rightarrow> (Client \<times> Config) option" where
  "receiver s m =
     (case deref_Milvus s m of
        None \<Rightarrow> None
      | Some v \<Rightarrow> (case configs s (cfg v) of None \<Rightarrow> None | Some c \<Rightarrow> Some (client v, c)))"

definition Insert :: "deps \<Rightarrow> nat \<Rightarrow> Section list \<Rightarrow> state \<Rightarrow> error option outcome \<times> state" where
  "Insert d m sections s =
     (case receiver s m of
        None \<Rightarrow> (Panicked NilDereference, s)
      | Some (c, conf) \<Rightarrow>
          (case call_ReleaseCollection c (CollectionName conf) s of
             (Some err, s1) \<Rightarrow> (Returned (Some err), s1)
           | (None, s1) \<Rightarrow>
               (case collect (float32_of_float64 d) 0 sections ([], [], [], [], []) of
                  (ids, titles, headings, contents, embeddings) \<Rightarrow>
                    (let idColData = ColumnInt64 idCol ids;
                         titleColData = ColumnVarChar titleCol titles;
                         headingColData = ColumnVarChar headingCol headings;
                         contentColData = ColumnVarChar contentCol contents;
                         embeddingColData = ColumnFloatVector embeddingCol (Dim conf) embeddings
                     in (case NewIndexIvfFlat d L2 128 of
                           Inl err \<Rightarrow> (Returned (Some err), s1)
                         | Inr idx \<Rightarrow>
                             (case call_CreateIndex c (CollectionName conf) embeddingCol idx False s1 of
                                (Some err, s2) \<Rightarrow> (Returned (Some err), s2)
                              | (None, s2) \<Rightarrow>
                                  (case call_Insert c (CollectionName conf) []
                                          [idColData, titleColData, headingColData,
                                           contentColData, embeddingColData] s2 of
                                     (r, s3) \<Rightarrow> (Returned (error_of r), s3))))))))"

subsection \<open>LoadJSON\<close>

definition LoadJSON :: "deps \<Rightarrow> nat \<Rightarrow> string \<Rightarrow> state \<Rightarrow> error option outcome \<times> state" where
  "LoadJSON d m filename s =
     (case call_ReadFile d filename s of
        (Inl err, s1) \<Rightarrow> (Returned (Some err), s1)
      | (Inr data, s1) \<Rightarrow>
          (case Unmarshal d data of
             Inl err \<Rightarrow> (Returned (Some err), s1)
           | Inr sections \<Rightarrow> Insert d m sections s1))"

subsection \<open>constructSimilaritiesFromResult\<close>

text \<open>
  The four column pointers start as nil (\<open>None\<close>); a pointer that is set holds the values
  of its column. The loop over the fields switches on the name and assigns only when the
  type assertion holds, so a later field of the same name and type replaces an earlier one.
\<close>

type_synonym column_pointers =
  "int64 list option \<times> string list option \<times> string list option \<times> string list option"

fun assign_columns :: "Column list \<Rightarrow> column_pointers \<Rightarrow> column_pointers" where
  "assign_columns [] ptrs = ptrs"
| "assign_columns (field # rest) (iCol, tCol, hCol, cCol) =
     assign_columns rest
       (if ColumnName field = idCol then
          (case field of ColumnInt64 _ vs \<Rightarrow> (Some vs, tCol, hCol, cCol) | _ \<Rightarrow> (iCol, tCol, hCol, cCol))
        else if ColumnName field = titleCol then
          (case field of ColumnVarChar _ vs \<Rightarrow> (iCol, Some vs, hCol, cCol) | _ \<Rightarrow> (iCol, tCol, hCol, cCol))
        else if ColumnName field = headingCol then
          (case field of ColumnVarChar _ vs \<Rightarrow> (iCol, tCol, Some vs, cCol) | _ \<Rightarrow> (iCol, tCol, hCol, cCol))
        else if ColumnName field = contentCol then
          (case field of ColumnVarChar _ vs \<Rightarrow> (iCol, tCol, hCol, Some vs) | _ \<Rightarrow> (iCol, tCol, hCol, cCol))
        else (iCol, tCol, hCol, cCol))"

text \<open>
  \<open>ValueByIdx\<close> of the library's columns: the method reads the column behind its receiver,
  so a nil receiver panics; an index outside the column is an error.
\<close>

definition ValueByIdx :: "'a list option \<Rightarrow> int \<Rightarrow> (error + 'a) outcome" where
  "ValueByIdx col idx =
     (case col of
        None \<Rightarrow> Panicked NilDereference
      | Some vs \<Rightarrow>
          (if idx < 0 \<or> idx \<ge> int (length vs) then Returned (Inl (Error ''index out of range''))
           else Returned (Inr (vs ! nat idx))))"

text \<open>\<open>int(iVal)\<close> keeps the 64 bits on a 64-bit target; \<open>float64(x)\<close> is a parameter.\<close>

definition int_of_int64 :: "int64 \<Rightarrow> go_int" where
  "int_of_int64 v = scast v"

text \<open>
  The loop over the rows. \<open>i\<close> runs from 0 and stays below \<open>ResultCount\<close>, so \<open>i++\<close> never
  wraps and \<open>i\<close> is an integer here. \<open>result.Scores[i]\<close> is evaluated after the four
  lookups, and panics when the slice is too short.
\<close>

function rows ::
  "(float32 \<Rightarrow> float64) \<Rightarrow> SearchResult \<Rightarrow> column_pointers \<Rightarrow> int \<Rightarrow> Similarity list \<Rightarrow>
   (Similarity list \<times> error option) outcome" where
  "rows widen result ptrs i similarities =
     (if i < sint (ResultCount result) then
        (case ptrs of (iCol, tCol, hCol, cCol) \<Rightarrow>
          (case ValueByIdx iCol i of
             Panicked p \<Rightarrow> Panicked p
           | Returned (Inl err) \<Rightarrow> Returned ([], Some err)
           | Returned (Inr iVal) \<Rightarrow>
          (case ValueByIdx tCol i of
             Panicked p \<Rightarrow> Panicked p
           | Returned (Inl err) \<Rightarrow> Returned ([], Some err)
           | Returned (Inr tVal) \<Rightarrow>
          (case ValueByIdx hCol i of
             Panicked p \<Rightarrow> Panicked p
           | Returned (Inl err) \<Rightarrow> Returned ([], Some err)
           | Returned (Inr hVal) \<Rightarrow>
          (case ValueByIdx cCol i of
             Panicked p \<Rightarrow> Panicked p
           | Returned (Inl err) \<Rightarrow> Returned ([], Some err)
           | Returned (Inr cVal) \<Rightarrow>
               (if i < 0 \<or> i \<ge> int (length (Scores result)) then Panicked IndexOutOfRange
                else rows widen result ptrs (i + 1)
                       (similarities @
                         [\<lparr>Section = \<lparr>Title = tVal, Heading = hVal, Content = cVal, Embedding = []\<rparr>,
                           ID = int_of_int64 iVal,
                           Score = widen (Scores result ! nat i)\<rparr>])))))))
      else Returned (similarities, None))"
  by pat_completeness auto
termination
  by (relation "measure (\<lambda>(widen, result, ptrs, i, similarities). nat (sint (ResultCount result) - i))")
     auto

definition constructSimilaritiesFromResult ::
  "deps \<Rightarrow> SearchResult \<Rightarrow> (Similarity list \<times> error option) outcome" where
  "constructSimilaritiesFromResult d result =
     rows (float64_of_float32 d) result
       (assign_columns (ResultFields result) (None, None, None, None)) 0 []"

subsection \<open>Query\<close>

definition Query ::
  "deps \<Rightarrow> nat \<Rightarrow> float64 list \<Rightarrow> go_int \<Rightarrow> state \<Rightarrow>
   (Similarity list \<times> error option) outcome \<times> state" where
  "Query d m embedding topK s =
     (case receiver s m of
        None \<Rightarrow> (Panicked NilDereference, s)
      | Some (c, conf) \<Rightarrow>
          (case call_LoadCollection c (CollectionName conf) False s of
             (Some err, s1) \<Rightarrow> (Returned ([], Some err), s1)
           | (None, s1) \<Rightarrow>
               (let float32Emb = Float64ToNumber (float32_of_float64 d) embedding;
                    vec2search = [float32Emb];
                    param = fst (NewIndexFlatSearchParam d)
                in (case call_Search c (CollectionName conf) [] []
                          [idCol, titleCol, headingCol, contentCol]
                          vec2search embeddingCol L2 topK param s1 of
                      (Inl err, s2) \<Rightarrow> (Returned ([], Some err), s2)
                    | (Inr result, s2) \<Rightarrow>
                        (case result of
                           [] \<Rightarrow> (Panicked IndexOutOfRange, s2)
                         | r0 # _ \<Rightarrow> (constructSimilaritiesFromResult d r0, s2))))))"

subsection \<open>NewMilvus\<close>

definition collection_schema :: "Config \<Rightarrow> Schema" where
  "collection_schema conf =
     \<lparr>SchemaCollectionName = CollectionName conf,
      AutoID = False,
      Fields =
        [\<lparr>Name = idCol, DataType = FieldTypeInt64, PrimaryKey = True, FieldAutoID = False,
          TypeParams = []\<rparr>,
         \<lparr>Name = titleCol, DataType = FieldTypeVarChar, PrimaryKey = False, FieldAutoID = False,
          TypeParams = [(TypeParamMaxLength, Sprintf_d 50)]\<rparr>,
         \<lparr>Name = headingCol, DataType = FieldTypeVarChar, PrimaryKey = False, FieldAutoID = False,
          TypeParams = [(TypeParamMaxLength, Sprintf_d 50)]\<rparr>,
         \<lparr>Name = contentCol, DataType = FieldTypeVarChar, PrimaryKey = False, FieldAutoID = False,
          TypeParams = [(TypeParamMaxLength, Sprintf_d 5000)]\<rparr>,
         \<lparr>Name = embeddingCol, DataType = FieldTypeFloatVector, PrimaryKey = False,
          FieldAutoID = False,
          TypeParams = [(TypeParamDim, Sprintf_d (sint (Dim conf)))]\<rparr>]\<rparr>"

definition createCollectionIfNotExists :: "nat \<Rightarrow> state \<Rightarrow> error option outcome \<times> state" where
  "createCollectionIfNotExists m s =
     (case receiver s m of
        None \<Rightarrow> (Panicked NilDereference, s)
      | Some (c, conf) \<Rightarrow>
          (case call_HasCollection c (CollectionName conf) s of
             (Inl err, s1) \<Rightarrow> (Returned (Some err), s1)
           | (Inr has, s1) \<Rightarrow>
               (if has then (Returned None, s1)
                else (case call_CreateCollection c (collection_schema conf) 2
                             [WithConsistencyLevel ClBounded] s1 of
                        (r, s2) \<Rightarrow> (Returned r, s2)))))"

text \<open>The result is the pointer to the new Milvus, or nil (\<open>None\<close>), and the error.\<close>

definition NewMilvus :: "deps \<Rightarrow> nat \<Rightarrow> state \<Rightarrow> (nat option \<times> error option) outcome \<times> state" where
  "NewMilvus d p s =
     (case init p s of
        (Panicked pn, s0) \<Rightarrow> (Panicked pn, s0)
      | (Returned _, s0) \<Rightarrow>
          (case configs s0 p of
             None \<Rightarrow> (Panicked NilDereference, s0)
           | Some conf \<Rightarrow>
               (case call_NewGrpcClient d (Addr conf) s0 of
                  (Inl err, s1) \<Rightarrow> (Returned (None, Some err), s1)
                | (Inr c, s1) \<Rightarrow>
                    (case alloc_Milvus \<lparr>client = c, cfg = p\<rparr> s1 of
                       (m, s2) \<Rightarrow>
                         (case call_ReleaseCollection c (CollectionName conf) s2 of
                            (_, s3) \<Rightarrow>
                              (case createCollectionIfNotExists m s3 of
                                 (Panicked pn, s4) \<Rightarrow> (Panicked pn, s4)
                               | (Returned (Some err), s4) \<Rightarrow> (Returned (None, Some err), s4)
                               | (Returned None, s4) \<Rightarrow> (Returned (Some m, None), s4)))))))"

subsection \<open>Reading a search result: the columns the row loop uses\<close>

text \<open>
  The int64 column of a given name in a list of fields, and the varchar column of a given
  name: the last field of that name and that type, if there is one. These say which
  column a result "has" without running the loop of \<open>constructSimilaritiesFromResult\<close>.
\<close>

fun int64_column :: "string \<Rightarrow> Column list \<Rightarrow> int64 list option" where
  "int64_column name [] = None"
| "int64_column name (field # rest) =
     (case int64_column name rest of
        Some vs \<Rightarrow> Some vs
      | None \<Rightarrow> (case field of
                   ColumnInt64 n vs \<Rightarrow> if n = name then Some vs else None
                 | _ \<Rightarrow> None))"

fun varchar_column :: "string \<Rightarrow> Column list \<Rightarrow> string list option" where
  "varchar_column name [] = None"
| "varchar_column name (field # rest) =
     (case varchar_column name rest of
        Some vs \<Rightarrow> Some vs
      | None \<Rightarrow> (case field of
                   ColumnVarChar n vs \<Rightarrow> if n = name then Some vs else None
                 | _ \<Rightarrow> None))"

text \<open>Row \<open>k\<close> of a result, as a similarity.\<close>

definition similarity_at ::
  "(float32 \<Rightarrow> float64) \<Rightarrow> SearchResult \<Rightarrow> int64 list \<Rightarrow> string list \<Rightarrow> string list \<Rightarrow>
   string list \<Rightarrow> nat \<Rightarrow> Similarity" where
  "similarity_at widen r ids titles headings contents k =
     \<lparr>Section = \<lparr>Title = titles ! k, Heading = headings ! k, Content = contents ! k,
                 Embedding = []\<rparr>,
      ID = ids ! k,
      Score = widen (Scores r ! k)\<rparr>"

definition override :: "'a option \<Rightarrow> 'a option \<Rightarrow> 'a option" where
  "override old new = (case new of None \<Rightarrow> old | Some v \<Rightarrow> Some v)"

subsection \<open>An environment to run the model in\<close>

text \<open>
  A client and libraries that answer by a table: \<open>fails\<close> gives the error of each call
  (or none), \<open>has\<close> is the answer of \<open>HasCollection\<close>, \<open>found\<close> the answer of \<open>Search\<close>.
  The two float conversions are stand-ins that resize the bit pattern.
\<close>

definition table_client :: "(call \<Rightarrow> error option) \<Rightarrow> bool \<Rightarrow> SearchResult list \<Rightarrow> Client" where
  "table_client fails has found =
     \<lparr>client_ReleaseCollection = (\<lambda>h n. fails (CallReleaseCollection n)),
      client_HasCollection =
        (\<lambda>h n. case fails (CallHasCollection n) of Some e \<Rightarrow> Inl e | None \<Rightarrow> Inr has),
      client_CreateCollection = (\<lambda>h sch sh opts. fails (CallCreateCollection sch sh opts)),
      client_CreateIndex = (\<lambda>h n f idx a. fails (CallCreateIndex n f idx a)),
      client_Insert =
        (\<lambda>h n p cols. case fails (CallInsert n p cols) of
                         Some e \<Rightarrow> Inl e
                       | None \<Rightarrow> Inr (ColumnInt64 idCol [])),
      client_LoadCollection = (\<lambda>h n a. fails (CallLoadCollection n a)),
      client_Search =
        (\<lambda>h n ps ex outs vs f mt k prm.
           case fails (CallSearch n ps ex outs vs f mt k prm) of
             Some e \<Rightarrow> Inl e
           | None \<Rightarrow> Inr found)\<rparr>"

definition two_sections :: "Section list" where
  "two_sections =
     [\<lparr>Title = ''Go'', Heading = ''Intro'', Content = ''Go is a language.'', Embedding = [1, 2]\<rparr>,
      \<lparr>Title = ''Go'', Heading = ''Tools'', Content = ''gofmt formats.'', Embedding = [3]\<rparr>]"

definition table_deps ::
  "(call \<Rightarrow> error option) \<Rightarrow> bool \<Rightarrow> SearchResult list \<Rightarrow> error option \<Rightarrow> error option \<Rightarrow> deps" where
  "table_deps fails has found index_fails json_fails =
     \<lparr>NewGrpcClient =
        (\<lambda>h a. case fails (CallNewGrpcClient a) of
                  Some e \<Rightarrow> Inl e
                | None \<Rightarrow> Inr (table_client fails has found)),
      NewIndexIvfFlat =
        (\<lambda>mt n. case index_fails of
                   Some e \<Rightarrow> Inl e
                 | None \<Rightarrow> Inr (Index ''IVF_FLAT'' [(''nlist'', ''128'')])),
      NewIndexFlatSearchParam = (Some (SearchParam []), None),
      ReadFile =
        (\<lambda>h f. case fails (CallReadFile f) of Some e \<Rightarrow> Inl e | None \<Rightarrow> Inr ''[...]''),
      Unmarshal = (\<lambda>data. case json_fails of Some e \<Rightarrow> Inl e | None \<Rightarrow> Inr two_sections),
      float32_of_float64 = ucast,
      float64_of_float32 = ucast\<rparr>"

definition docs_config :: Config where
  "docs_config = \<lparr>CollectionName = ''docs'', Addr = [], Dim = 0\<rparr>"

text \<open>A store with the caller's Config at address 0 and no Milvus yet.\<close>

definition fresh_state :: state where
  "fresh_state = \<lparr>configs = [0 \<mapsto> docs_config], milvuses = [], log = []\<rparr>"

text \<open>A store with one Milvus, at address 0, on the table client.\<close>

definition ready_state :: "(call \<Rightarrow> error option) \<Rightarrow> bool \<Rightarrow> SearchResult list \<Rightarrow> state" where
  "ready_state fails has found =
     \<lparr>configs = [0 \<mapsto> Config_init docs_config],
      milvuses = [\<lparr>client = table_client fails has found, cfg = 0\<rparr>],
      log = []\<rparr>"

definition no_failure :: "call \<Rightarrow> error option" where
  "no_failure c = None"

text \<open>The calls of one kind fail with the given error; every other call succeeds.\<close>

definition fails_on :: "(call \<Rightarrow> bool) \<Rightarrow> error \<Rightarrow> call \<Rightarrow> error option" where
  "fails_on kind e c = (if kind c then Some e else None)"

definition a_result :: SearchResult where
  "a_result =
     \<lparr>ResultCount = 2,
      ResultFields =
        [ColumnInt64 ''id'' [7, 3],
         ColumnVarChar ''title'' [''Go'', ''Go''],
         ColumnVarChar ''heading'' [''Tools'', ''Intro''],
         ColumnVarChar ''content'' [''gofmt formats.'', ''Go is a language.'']],
      Scores = [5, 9]\<rparr>"

text \<open>The five columns of a bulk insert, as functions of the sections.\<close>

definition insert_columns :: "deps \<Rightarrow> Config \<Rightarrow> Section list \<Rightarrow> Column list" where
  "insert_columns d conf sections =
     [ColumnInt64 idCol (map of_nat [0..<length sections]),
      ColumnVarChar titleCol (map Title sections),
      ColumnVarChar headingCol (map Heading sections),
      ColumnVarChar contentCol (map Content sections),
      ColumnFloatVector embeddingCol (Dim conf)
        (map (\<lambda>x. map (float32_of_float64 d) (Embedding x)) sections)]"

text \<open>Results that are not what the row loop expects: one with a row and no column, one
  with all four columns and no score, one whose id column is empty and whose title column
  is absent.\<close>

definition bare_result :: SearchResult where
  "bare_result = \<lparr>ResultCount = 1, ResultFields = [], Scores = [5]\<rparr>"

definition scoreless_result :: SearchResult where
  "scoreless_result =
     \<lparr>ResultCount = 1,
      ResultFields =
        [ColumnInt64 ''id'' [7], ColumnVarChar ''title'' [''Go''],
         ColumnVarChar ''heading'' [''Tools''], ColumnVarChar ''content'' [''gofmt formats.'']],
      Scores = []\<rparr>"

definition short_id_result :: SearchResult where
  "short_id_result =
     \<lparr>ResultCount = 1,
      ResultFields =
        [ColumnInt64 ''id'' [],
         ColumnVarChar ''heading'' [''Tools''], ColumnVarChar ''content'' [''gofmt formats.'']],
      Scores = [5]\<rparr>"

section \<open>Properties\<close>

declare rows.simps [simp del]
declare decimal.simps [simp del]

subsection \<open>What each operation does, call by call\<close>

lemmas call_defs = call_NewGrpcClient_def call_ReadFile_def call_ReleaseCollection_def
  call_HasCollection_def call_CreateCollection_def call_CreateIndex_def call_Insert_def
  call_LoadCollection_def call_Search_def record_call_def Let_def

lemma collect_eq:
  "collect conv i xs (ids, ts, hs, cs, es) =
     (ids @ map of_nat [i..<i + length xs], ts @ map Title xs, hs @ map Heading xs,
      cs @ map Content xs, es @ map (\<lambda>x. map conv (Embedding x)) xs)"
  by (induction xs arbitrary: i ids ts hs cs es) (simp_all add: upt_rec Float64ToNumber_def)

lemma Insert_unfold:
  assumes "receiver s m = Some (c, conf)"
  shows "Insert d m sections s =
    (let n = CollectionName conf;
         e1 = client_ReleaseCollection c (log s) n;
         h1 = log s @ [(CallReleaseCollection n, e1)]
     in case e1 of Some err \<Rightarrow> (Returned (Some err), s\<lparr>log := h1\<rparr>)
        | None \<Rightarrow>
          (case NewIndexIvfFlat d L2 128 of
             Inl err \<Rightarrow> (Returned (Some err), s\<lparr>log := h1\<rparr>)
           | Inr idx \<Rightarrow>
              (let e2 = client_CreateIndex c h1 n embeddingCol idx False;
                   h2 = h1 @ [(CallCreateIndex n embeddingCol idx False, e2)]
               in case e2 of Some err \<Rightarrow> (Returned (Some err), s\<lparr>log := h2\<rparr>)
                  | None \<Rightarrow>
                    (let r = client_Insert c h2 n [] (insert_columns d conf sections)
                     in (Returned (error_of r),
                         s\<lparr>log := h2 @ [(CallInsert n [] (insert_columns d conf sections),
                                          error_of r)]\<rparr>)))))"
  using assms
  by (simp add: Insert_def call_defs collect_eq insert_columns_def
           split: option.splits sum.splits)

lemma Insert_nil: "receiver s m = None \<Longrightarrow> Insert d m sections s = (Panicked NilDereference, s)"
  by (simp add: Insert_def)

lemma Query_unfold:
  assumes "receiver s m = Some (c, conf)"
  shows "Query d m embedding topK s =
    (let n = CollectionName conf;
         e1 = client_LoadCollection c (log s) n False;
         h1 = log s @ [(CallLoadCollection n False, e1)]
     in case e1 of Some err \<Rightarrow> (Returned ([], Some err), s\<lparr>log := h1\<rparr>)
        | None \<Rightarrow>
           (let r = client_Search c h1 n [] [] [idCol, titleCol, headingCol, contentCol]
                      [map (float32_of_float64 d) embedding] embeddingCol L2 topK
                      (fst (NewIndexFlatSearchParam d));
                s2 = s\<lparr>log := h1 @ [(CallSearch n [] [] [idCol, titleCol, headingCol, contentCol]
                      [map (float32_of_float64 d) embedding] embeddingCol L2 topK
                      (fst (NewIndexFlatSearchParam d)), error_of r)]\<rparr>
            in case r of Inl err \<Rightarrow> (Returned ([], Some err), s2)
               | Inr [] \<Rightarrow> (Panicked IndexOutOfRange, s2)
               | Inr (r0 # rest) \<Rightarrow> (constructSimilaritiesFromResult d r0, s2)))"
  using assms
  by (simp add: Query_def call_defs Float64ToNumber_def error_of_def
           split: option.splits sum.splits list.splits)

lemma Query_nil:
  "receiver s m = None \<Longrightarrow> Query d m embedding topK s = (Panicked NilDereference, s)"
  by (simp add: Query_def)

lemma NewMilvus_nil: "configs s p = None \<Longrightarrow> NewMilvus d p s = (Panicked NilDereference, s)"
  by (simp add: NewMilvus_def init_def)

lemma NewMilvus_unfold:
  assumes "configs s p = Some conf0"
  shows "NewMilvus d p s =
    (let conf = Config_init conf0;
         n = CollectionName conf;
         s0 = s\<lparr>configs := (configs s)(p \<mapsto> conf)\<rparr>;
         r1 = NewGrpcClient d (log s) (Addr conf);
         h1 = log s @ [(CallNewGrpcClient (Addr conf), error_of r1)]
     in case r1 of
          Inl err \<Rightarrow> (Returned (None, Some err), s0\<lparr>log := h1\<rparr>)
        | Inr c \<Rightarrow>
           (let m = length (milvuses s);
                e2 = client_ReleaseCollection c h1 n;
                h2 = h1 @ [(CallReleaseCollection n, e2)];
                r3 = client_HasCollection c h2 n;
                h3 = h2 @ [(CallHasCollection n, error_of r3)];
                s3 = s0\<lparr>milvuses := milvuses s @ [\<lparr>client = c, cfg = p\<rparr>], log := h3\<rparr>
            in case r3 of
                 Inl err \<Rightarrow> (Returned (None, Some err), s3)
               | Inr has \<Rightarrow>
                  (if has then (Returned (Some m, None), s3)
                   else (let e4 = client_CreateCollection c h3 (collection_schema conf) 2
                                    [WithConsistencyLevel ClBounded]
                         in (Returned (case e4 of None \<Rightarrow> (Some m, None)
                                        | Some err \<Rightarrow> (None, Some err)),
                             s3\<lparr>log := h3 @ [(CallCreateCollection (collection_schema conf) 2
                                                [WithConsistencyLevel ClBounded], e4)]\<rparr>)))))"
  using assms
  by (simp add: NewMilvus_def init_def call_defs alloc_Milvus_def
                createCollectionIfNotExists_def receiver_def deref_Milvus_def error_of_def
           split: option.splits sum.splits)

lemma sint_of_nat_index:
  assumes "n < 2 ^ 63"
  shows "sint (of_nat n :: 64 word) = int n"
proof -
  have "signed_take_bit 63 (int n) = int n"
    using assms by (intro signed_take_bit_int_eq_self) simp_all
  then show ?thesis by (simp add: signed_of_nat)
qed

lemma ready_receiver:
  "receiver (ready_state fails has found) 0 =
     Some (table_client fails has found, Config_init docs_config)"
  by (simp add: receiver_def deref_Milvus_def ready_state_def)

lemma docs_init:
  "Config_init docs_config = \<lparr>CollectionName = ''docs'', Addr = ''localhost:19530'', Dim = 1536\<rparr>"
  by (simp add: Config_init_def docs_config_def)

subsection \<open>Insert\<close>

text \<open>
  C1. For every sequence of sections, the calls of \<open>Insert\<close> are an initial part of:
  the release of the collection, the creation of the index on the embedding column with
  the IVF_FLAT descriptor (the one \<open>NewIndexIvfFlat(L2, 128)\<close> returned), one bulk insert
  of the five columns id, title, heading, content, embedding; and they are all three, in
  this order, when the release, the descriptor and the creation of the index succeed.
  Each column has as many entries as there are sections; entry \<open>i\<close> of the id column is
  the int64 \<open>i\<close>, entries \<open>i\<close> of title, heading and content are the fields of section
  \<open>i\<close>, and entry \<open>i\<close> of the embedding column is the embedding of section \<open>i\<close>,
  converted element by element.
\<close>

theorem Insert_steps_in_order:
  assumes "receiver s m = Some (c, conf)"
  shows "\<exists>idx ids titles headings contents embeddings.
           (\<forall>idx'. NewIndexIvfFlat d L2 128 = Inr idx' \<longrightarrow> idx' = idx) \<and>
           prefix (map fst (issued s (snd (Insert d m sections s))))
             [CallReleaseCollection (CollectionName conf),
              CallCreateIndex (CollectionName conf) embeddingCol idx False,
              CallInsert (CollectionName conf) []
                [ColumnInt64 idCol ids, ColumnVarChar titleCol titles,
                 ColumnVarChar headingCol headings, ColumnVarChar contentCol contents,
                 ColumnFloatVector embeddingCol (Dim conf) embeddings]] \<and>
           (client_ReleaseCollection c (log s) (CollectionName conf) = None \<and>
            NewIndexIvfFlat d L2 128 = Inr idx \<and>
            client_CreateIndex c (log s @ [(CallReleaseCollection (CollectionName conf), None)])
              (CollectionName conf) embeddingCol idx False = None \<longrightarrow>
              map fst (issued s (snd (Insert d m sections s))) =
                [CallReleaseCollection (CollectionName conf),
                 CallCreateIndex (CollectionName conf) embeddingCol idx False,
                 CallInsert (CollectionName conf) []
                   [ColumnInt64 idCol ids, ColumnVarChar titleCol titles,
                    ColumnVarChar headingCol headings, ColumnVarChar contentCol contents,
                    ColumnFloatVector embeddingCol (Dim conf) embeddings]]) \<and>
           length ids = length sections \<and> length titles = length sections \<and>
           length headings = length sections \<and> length contents = length sections \<and>
           length embeddings = length sections \<and>
           (\<forall>i<length sections.
              ids ! i = of_nat i \<and>
              (length sections \<le> 2 ^ 63 \<longrightarrow> sint (ids ! i) = int i) \<and>
              titles ! i = Title (sections ! i) \<and>
              headings ! i = Heading (sections ! i) \<and>
              contents ! i = Content (sections ! i) \<and>
              embeddings ! i = map (float32_of_float64 d) (Embedding (sections ! i)))"
proof -
  define idx where "idx = (case NewIndexIvfFlat d L2 128 of Inr i \<Rightarrow> i | Inl _ \<Rightarrow> Index [] [])"
  have same: "\<forall>idx'. NewIndexIvfFlat d L2 128 = Inr idx' \<longrightarrow> idx' = idx"
    by (simp add: idx_def)
  have calls: "prefix (map fst (issued s (snd (Insert d m sections s))))
      [CallReleaseCollection (CollectionName conf),
       CallCreateIndex (CollectionName conf) embeddingCol idx False,
       CallInsert (CollectionName conf) [] (insert_columns d conf sections)]"
    by (simp add: Insert_unfold [OF assms] issued_def Let_def idx_def
             split: option.splits sum.splits)
  have all: "map fst (issued s (snd (Insert d m sections s))) =
      [CallReleaseCollection (CollectionName conf),
       CallCreateIndex (CollectionName conf) embeddingCol idx False,
       CallInsert (CollectionName conf) [] (insert_columns d conf sections)]"
    if "client_ReleaseCollection c (log s) (CollectionName conf) = None"
       "NewIndexIvfFlat d L2 128 = Inr idx"
       "client_CreateIndex c (log s @ [(CallReleaseCollection (CollectionName conf), None)])
              (CollectionName conf) embeddingCol idx False = None"
    using that by (simp add: Insert_unfold [OF assms] issued_def Let_def)
  have idx_val: "sint (of_nat i :: 64 word) = int i"
    if "i < length sections" "length sections \<le> 2 ^ 63" for i
    using that by (intro sint_of_nat_index) simp
  have cols: "insert_columns d conf sections =
      [ColumnInt64 idCol (map of_nat [0..<length sections]),
       ColumnVarChar titleCol (map Title sections),
       ColumnVarChar headingCol (map Heading sections),
       ColumnVarChar contentCol (map Content sections),
       ColumnFloatVector embeddingCol (Dim conf)
         (map (\<lambda>x. map (float32_of_float64 d) (Embedding x)) sections)]"
    by (simp add: insert_columns_def)
  have entries: "\<forall>i<length sections.
      map of_nat [0..<length sections] ! i = (of_nat i :: int64) \<and>
      (length sections \<le> 2 ^ 63 \<longrightarrow>
         sint (map of_nat [0..<length sections] ! i :: int64) = int i) \<and>
      map Title sections ! i = Title (sections ! i) \<and>
      map Heading sections ! i = Heading (sections ! i) \<and>
      map Content sections ! i = Content (sections ! i) \<and>
      map (\<lambda>x. map (float32_of_float64 d) (Embedding x)) sections ! i =
        map (float32_of_float64 d) (Embedding (sections ! i))"
    using idx_val by simp
  show ?thesis
    apply (rule exI [of _ idx])
    apply (rule exI [of _ "map of_nat [0..<length sections]"])
    apply (rule exI [of _ "map Title sections"])
    apply (rule exI [of _ "map Heading sections"])
    apply (rule exI [of _ "map Content sections"])
    apply (rule exI [of _ "map (\<lambda>x. map (float32_of_float64 d) (Embedding x)) sections"])
    apply (intro conjI)
            apply (rule same)
           apply (rule calls [unfolded cols])
          apply (use all [unfolded cols] in blast)
         apply simp
        apply simp
       apply simp
      apply simp
     apply simp
    apply (rule entries)
    done
qed

theorem Insert_steps_in_order_witness:
  "\<exists>ids titles headings contents embeddings.
     map fst (issued (ready_state no_failure True [])
        (snd (Insert (table_deps no_failure True [] None None) 0 two_sections
                (ready_state no_failure True [])))) =
       [CallReleaseCollection ''docs'',
        CallCreateIndex ''docs'' ''embedding'' (Index ''IVF_FLAT'' [(''nlist'', ''128'')]) False,
        CallInsert ''docs'' []
          [ColumnInt64 ''id'' ids, ColumnVarChar ''title'' titles,
           ColumnVarChar ''heading'' headings, ColumnVarChar ''content'' contents,
           ColumnFloatVector ''embedding'' 1536 embeddings]] \<and>
     length ids = 2 \<and> sint (ids ! 1) = 1 \<and> titles ! 1 = ''Go'' \<and> headings ! 1 = ''Tools'' \<and>
     contents ! 0 = ''Go is a language.'' \<and> embeddings ! 1 = [3]"
proof -
  let ?s = "ready_state no_failure True []"
  let ?d = "table_deps no_failure True [] None None"
  let ?c = "table_client no_failure True []"
  let ?conf = "Config_init docs_config"
  let ?idx = "Index ''IVF_FLAT'' [(''nlist'', ''128'')]"
  have h2: "client_ReleaseCollection ?c (log ?s) (CollectionName ?conf) = None"
    by (simp add: table_client_def no_failure_def)
  have h3: "NewIndexIvfFlat ?d L2 128 = Inr ?idx"
    by (simp add: table_deps_def)
  have h4: "client_CreateIndex ?c (log ?s @ [(CallReleaseCollection (CollectionName ?conf), None)])
              (CollectionName ?conf) embeddingCol ?idx False = None"
    by (simp add: table_client_def no_failure_def)
  have len: "length two_sections = 2"
    by (simp add: two_sections_def)
  from Insert_steps_in_order [OF ready_receiver [of no_failure True "[]"], of ?d two_sections]
  show ?thesis
  proof (elim exE conjE)
    fix idx ids titles headings contents embeddings
    assume same: "\<forall>idx'. NewIndexIvfFlat ?d L2 128 = Inr idx' \<longrightarrow> idx' = idx"
    assume all: "client_ReleaseCollection ?c (log ?s) (CollectionName ?conf) = None \<and>
            NewIndexIvfFlat ?d L2 128 = Inr idx \<and>
            client_CreateIndex ?c (log ?s @ [(CallReleaseCollection (CollectionName ?conf), None)])
              (CollectionName ?conf) embeddingCol idx False = None \<longrightarrow>
       map fst (issued ?s (snd (Insert ?d 0 two_sections ?s))) =
       [CallReleaseCollection (CollectionName ?conf),
        CallCreateIndex (CollectionName ?conf) embeddingCol idx False,
        CallInsert (CollectionName ?conf) []
          [ColumnInt64 idCol ids, ColumnVarChar titleCol titles,
           ColumnVarChar headingCol headings, ColumnVarChar contentCol contents,
           ColumnFloatVector embeddingCol (Dim ?conf) embeddings]]"
    assume lens: "length ids = length two_sections"
    assume rows: "\<forall>i<length two_sections.
              ids ! i = of_nat i \<and>
              (length two_sections \<le> 2 ^ 63 \<longrightarrow> sint (ids ! i) = int i) \<and>
              titles ! i = Title (two_sections ! i) \<and>
              headings ! i = Heading (two_sections ! i) \<and>
              contents ! i = Content (two_sections ! i) \<and>
              embeddings ! i = map (float32_of_float64 ?d) (Embedding (two_sections ! i))"
    from same h3 have idx: "idx = ?idx" by simp
    from all h2 h3 h4 have calls: "map fst (issued ?s (snd (Insert ?d 0 two_sections ?s))) =
       [CallReleaseCollection (CollectionName ?conf),
        CallCreateIndex (CollectionName ?conf) embeddingCol ?idx False,
        CallInsert (CollectionName ?conf) []
          [ColumnInt64 idCol ids, ColumnVarChar titleCol titles,
           ColumnVarChar headingCol headings, ColumnVarChar contentCol contents,
           ColumnFloatVector embeddingCol (Dim ?conf) embeddings]]"
      unfolding idx by blast
    from rows have r1: "sint (ids ! 1) = 1 \<and> titles ! 1 = ''Go'' \<and> headings ! 1 = ''Tools'' \<and>
        embeddings ! 1 = [3]"
      by (simp add: len two_sections_def table_deps_def)
    from rows have r0: "contents ! 0 = ''Go is a language.''"
      by (simp add: len two_sections_def)
    show ?thesis
      using calls lens r1 r0
      by (intro exI [of _ ids] exI [of _ titles] exI [of _ headings] exI [of _ contents]
                exI [of _ embeddings])
         (simp add: len docs_init idCol_def titleCol_def headingCol_def contentCol_def
                    embeddingCol_def)
  qed
qed

text \<open>
  C10. When the release at the start of \<open>Insert\<close> fails, or the construction of the index
  descriptor fails, or the \<open>CreateIndex\<close> call fails, \<open>Insert\<close> returns that error, and
  the calls it made stop there: there is no bulk insert among them.
\<close>

theorem Insert_stops_before_bulk_insert:
  assumes "receiver s m = Some (c, conf)"
  shows "(\<forall>e. client_ReleaseCollection c (log s) (CollectionName conf) = Some e \<longrightarrow>
            fst (Insert d m sections s) = Returned (Some e) \<and>
            map fst (issued s (snd (Insert d m sections s))) =
              [CallReleaseCollection (CollectionName conf)]) \<and>
         (\<forall>e. client_ReleaseCollection c (log s) (CollectionName conf) = None \<and>
              NewIndexIvfFlat d L2 128 = Inl e \<longrightarrow>
            fst (Insert d m sections s) = Returned (Some e) \<and>
            map fst (issued s (snd (Insert d m sections s))) =
              [CallReleaseCollection (CollectionName conf)]) \<and>
         (\<forall>e idx. client_ReleaseCollection c (log s) (CollectionName conf) = None \<and>
              NewIndexIvfFlat d L2 128 = Inr idx \<and>
              client_CreateIndex c (log s @ [(CallReleaseCollection (CollectionName conf), None)])
                (CollectionName conf) embeddingCol idx False = Some e \<longrightarrow>
            fst (Insert d m sections s) = Returned (Some e) \<and>
            map fst (issued s (snd (Insert d m sections s))) =
              [CallReleaseCollection (CollectionName conf),
               CallCreateIndex (CollectionName conf) embeddingCol idx False]) \<and>
         (client_ReleaseCollection c (log s) (CollectionName conf) \<noteq> None \<or>
          error_of (NewIndexIvfFlat d L2 128) \<noteq> None \<or>
          (\<exists>idx. NewIndexIvfFlat d L2 128 = Inr idx \<and>
             client_CreateIndex c (log s @ [(CallReleaseCollection (CollectionName conf), None)])
                (CollectionName conf) embeddingCol idx False \<noteq> None) \<longrightarrow>
            filter is_CallInsert (map fst (issued s (snd (Insert d m sections s)))) = [])"
  by (auto simp: Insert_unfold [OF assms] issued_def Let_def error_of_def
           split: option.splits sum.splits)

theorem Insert_stops_before_bulk_insert_witness:
  "fst (Insert (table_deps (fails_on is_CallReleaseCollection (Error ''not loaded'')) True [] None None)
          0 two_sections
          (ready_state (fails_on is_CallReleaseCollection (Error ''not loaded'')) True [])) =
     Returned (Some (Error ''not loaded'')) \<and>
   fst (Insert (table_deps no_failure True [] (Some (Error ''nlist'')) None) 0 two_sections
          (ready_state no_failure True [])) =
     Returned (Some (Error ''nlist'')) \<and>
   fst (Insert (table_deps (fails_on is_CallCreateIndex (Error ''index exists'')) True [] None None)
          0 two_sections
          (ready_state (fails_on is_CallCreateIndex (Error ''index exists'')) True [])) =
     Returned (Some (Error ''index exists'')) \<and>
   filter is_CallInsert (map fst
     (issued (ready_state (fails_on is_CallCreateIndex (Error ''index exists'')) True [])
       (snd (Insert (table_deps (fails_on is_CallCreateIndex (Error ''index exists'')) True [] None None)
          0 two_sections
          (ready_state (fails_on is_CallCreateIndex (Error ''index exists'')) True []))))) = []"
proof -
  let ?f1 = "fails_on is_CallReleaseCollection (Error ''not loaded'')"
  let ?f3 = "fails_on is_CallCreateIndex (Error ''index exists'')"
  have a: "client_ReleaseCollection (table_client ?f1 True []) (log (ready_state ?f1 True []))
             (CollectionName (Config_init docs_config)) = Some (Error ''not loaded'')"
    by (simp add: table_client_def fails_on_def)
  have b: "client_ReleaseCollection (table_client no_failure True [])
             (log (ready_state no_failure True [])) (CollectionName (Config_init docs_config)) = None \<and>
           NewIndexIvfFlat (table_deps no_failure True [] (Some (Error ''nlist'')) None) L2 128 =
             Inl (Error ''nlist'')"
    by (simp add: table_client_def table_deps_def no_failure_def)
  have c: "client_ReleaseCollection (table_client ?f3 True []) (log (ready_state ?f3 True []))
             (CollectionName (Config_init docs_config)) = None \<and>
           NewIndexIvfFlat (table_deps ?f3 True [] None None) L2 128 =
             Inr (Index ''IVF_FLAT'' [(''nlist'', ''128'')]) \<and>
           client_CreateIndex (table_client ?f3 True [])
             (log (ready_state ?f3 True []) @
                [(CallReleaseCollection (CollectionName (Config_init docs_config)), None)])
             (CollectionName (Config_init docs_config)) embeddingCol
             (Index ''IVF_FLAT'' [(''nlist'', ''128'')]) False = Some (Error ''index exists'')"
    by (simp add: table_client_def table_deps_def fails_on_def)
  from c have c': "\<exists>idx. NewIndexIvfFlat (table_deps ?f3 True [] None None) L2 128 = Inr idx \<and>
           client_CreateIndex (table_client ?f3 True [])
             (log (ready_state ?f3 True []) @
                [(CallReleaseCollection (CollectionName (Config_init docs_config)), None)])
             (CollectionName (Config_init docs_config)) embeddingCol idx False \<noteq> None"
    by simp
  show ?thesis
    using Insert_stops_before_bulk_insert [OF ready_receiver, of ?f1 True "[]"
            "table_deps ?f1 True [] None None" two_sections] a
          Insert_stops_before_bulk_insert [OF ready_receiver, of no_failure True "[]"
            "table_deps no_failure True [] (Some (Error ''nlist'')) None" two_sections] b
          Insert_stops_before_bulk_insert [OF ready_receiver, of ?f3 True "[]"
            "table_deps ?f3 True [] None None" two_sections] c c'
    by blast
qed

subsection \<open>Query: the calls\<close>

text \<open>
  C4. For every embedding and every \<open>topK\<close>, \<open>Query\<close> first loads the collection. When the
  load fails, the load is the only call and its error is returned. Otherwise there is
  exactly one more call, a search with one query vector, the embedding converted element
  by element, with limit \<open>topK\<close>, on the embedding column, under the L2 metric, asking
  for the output fields id, title, heading and content.
\<close>

theorem Query_loads_then_searches_once:
  assumes "receiver s m = Some (c, conf)"
  shows "(\<forall>e. client_LoadCollection c (log s) (CollectionName conf) False = Some e \<longrightarrow>
            fst (Query d m embedding topK s) = Returned ([], Some e) \<and>
            map fst (issued s (snd (Query d m embedding topK s))) =
              [CallLoadCollection (CollectionName conf) False]) \<and>
         (client_LoadCollection c (log s) (CollectionName conf) False = None \<longrightarrow>
            map fst (issued s (snd (Query d m embedding topK s))) =
              [CallLoadCollection (CollectionName conf) False,
               CallSearch (CollectionName conf) [] [] [''id'', ''title'', ''heading'', ''content'']
                 [map (float32_of_float64 d) embedding] ''embedding'' L2 topK
                 (fst (NewIndexFlatSearchParam d))])"
  by (auto simp: Query_unfold [OF assms] issued_def Let_def idCol_def titleCol_def
                 headingCol_def contentCol_def embeddingCol_def
           split: option.splits sum.splits list.splits)

theorem Query_loads_then_searches_once_witness:
  "fst (Query (table_deps (fails_on is_CallLoadCollection (Error ''no such collection'')) True [a_result] None None)
          0 [1, 2] 5
          (ready_state (fails_on is_CallLoadCollection (Error ''no such collection'')) True [a_result])) =
     Returned ([], Some (Error ''no such collection'')) \<and>
   map fst (issued (ready_state no_failure True [a_result])
     (snd (Query (table_deps no_failure True [a_result] None None) 0 [1, 2] 5
             (ready_state no_failure True [a_result])))) =
     [CallLoadCollection ''docs'' False,
      CallSearch ''docs'' [] [] [''id'', ''title'', ''heading'', ''content''] [[1, 2]] ''embedding''
        L2 5 (Some (SearchParam []))]"
proof -
  let ?f = "fails_on is_CallLoadCollection (Error ''no such collection'')"
  have a: "client_LoadCollection (table_client ?f True [a_result])
             (log (ready_state ?f True [a_result])) (CollectionName (Config_init docs_config)) False =
           Some (Error ''no such collection'')"
    by (simp add: table_client_def fails_on_def)
  have b: "client_LoadCollection (table_client no_failure True [a_result])
             (log (ready_state no_failure True [a_result]))
             (CollectionName (Config_init docs_config)) False = None"
    by (simp add: table_client_def no_failure_def)
  have 1: "fst (Query (table_deps ?f True [a_result] None None) 0 [1, 2] 5
                 (ready_state ?f True [a_result])) =
             Returned ([], Some (Error ''no such collection''))"
    using Query_loads_then_searches_once [OF ready_receiver, of ?f True "[a_result]"
            "table_deps ?f True [a_result] None None" "[1, 2]" 5] a
    by blast
  have 2: "map fst (issued (ready_state no_failure True [a_result])
       (snd (Query (table_deps no_failure True [a_result] None None) 0 [1, 2] 5
               (ready_state no_failure True [a_result])))) =
       [CallLoadCollection (CollectionName (Config_init docs_config)) False,
        CallSearch (CollectionName (Config_init docs_config)) [] []
          [''id'', ''title'', ''heading'', ''content'']
          [map (float32_of_float64 (table_deps no_failure True [a_result] None None)) [1, 2]]
          ''embedding'' L2 5
          (fst (NewIndexFlatSearchParam (table_deps no_failure True [a_result] None None)))]"
    using Query_loads_then_searches_once [OF ready_receiver, of no_failure True "[a_result]"
            "table_deps no_failure True [a_result] None None" "[1, 2]" 5] b
    by blast
  show ?thesis
    using 1 2 by (simp add: docs_init table_deps_def)
qed

subsection \<open>NewMilvus\<close>

lemma Sprintf_d_values: "Sprintf_d 50 = ''50''" "Sprintf_d 5000 = ''5000''" "Sprintf_d 1536 = ''1536''"
  by (simp_all add: Sprintf_d_def decimal.simps digit_def)

text \<open>
  C5. Once connected, \<open>NewMilvus\<close> releases the collection, asks whether it exists, and
  creates it only when the answer is no, with the schema of five fields: id (int64,
  primary key, AutoID off), title and heading (varchar, max length 50), content (varchar,
  max length 5000), embedding (float vector of dimension \<open>Dim\<close>). When the collection
  exists, no collection is created and the new Milvus is returned.
\<close>

theorem NewMilvus_provisions_collection:
  assumes "configs s p = Some conf0"
      and "conf = Config_init conf0"
      and "NewGrpcClient d (log s) (Addr conf) = Inr c"
      and "h = log s @ [(CallNewGrpcClient (Addr conf), None),
                        (CallReleaseCollection (CollectionName conf),
                         client_ReleaseCollection c
                           (log s @ [(CallNewGrpcClient (Addr conf), None)]) (CollectionName conf))]"
  shows "map fst (issued s (snd (NewMilvus d p s))) =
           [CallNewGrpcClient (Addr conf),
            CallReleaseCollection (CollectionName conf),
            CallHasCollection (CollectionName conf)] @
           (if client_HasCollection c h (CollectionName conf) = Inr False then
              [CallCreateCollection
                 \<lparr>SchemaCollectionName = CollectionName conf,
                  AutoID = False,
                  Fields =
                    [\<lparr>Name = ''id'', DataType = FieldTypeInt64, PrimaryKey = True,
                      FieldAutoID = False, TypeParams = []\<rparr>,
                     \<lparr>Name = ''title'', DataType = FieldTypeVarChar, PrimaryKey = False,
                      FieldAutoID = False, TypeParams = [(''max_length'', ''50'')]\<rparr>,
                     \<lparr>Name = ''heading'', DataType = FieldTypeVarChar, PrimaryKey = False,
                      FieldAutoID = False, TypeParams = [(''max_length'', ''50'')]\<rparr>,
                     \<lparr>Name = ''content'', DataType = FieldTypeVarChar, PrimaryKey = False,
                      FieldAutoID = False, TypeParams = [(''max_length'', ''5000'')]\<rparr>,
                     \<lparr>Name = ''embedding'', DataType = FieldTypeFloatVector, PrimaryKey = False,
                      FieldAutoID = False,
                      TypeParams = [(''dim'', Sprintf_d (sint (Dim conf)))]\<rparr>]\<rparr>
                 2 [WithConsistencyLevel ClBounded]]
            else []) \<and>
         (client_HasCollection c h (CollectionName conf) = Inr True \<longrightarrow>
            fst (NewMilvus d p s) = Returned (Some (length (milvuses s)), None) \<and>
            filter is_CallCreateCollection (map fst (issued s (snd (NewMilvus d p s)))) = [])"
  using assms(2-4)
  by (auto simp: NewMilvus_unfold [OF assms(1)] issued_def Let_def error_of_def
                 collection_schema_def Sprintf_d_values idCol_def titleCol_def headingCol_def
                 contentCol_def embeddingCol_def TypeParamMaxLength_def TypeParamDim_def
           split: sum.splits)


theorem NewMilvus_provisions_collection_witness:
  "map fst (issued fresh_state
      (snd (NewMilvus (table_deps no_failure False [] None None) 0 fresh_state))) =
     [CallNewGrpcClient ''localhost:19530'',
      CallReleaseCollection ''docs'',
      CallHasCollection ''docs'',
      CallCreateCollection
        \<lparr>SchemaCollectionName = ''docs'',
         AutoID = False,
         Fields =
           [\<lparr>Name = ''id'', DataType = FieldTypeInt64, PrimaryKey = True,
             FieldAutoID = False, TypeParams = []\<rparr>,
            \<lparr>Name = ''title'', DataType = FieldTypeVarChar, PrimaryKey = False,
             FieldAutoID = False, TypeParams = [(''max_length'', ''50'')]\<rparr>,
            \<lparr>Name = ''heading'', DataType = FieldTypeVarChar, PrimaryKey = False,
             FieldAutoID = False, TypeParams = [(''max_length'', ''50'')]\<rparr>,
            \<lparr>Name = ''content'', DataType = FieldTypeVarChar, PrimaryKey = False,
             FieldAutoID = False, TypeParams = [(''max_length'', ''5000'')]\<rparr>,
            \<lparr>Name = ''embedding'', DataType = FieldTypeFloatVector, PrimaryKey = False,
             FieldAutoID = False, TypeParams = [(''dim'', ''1536'')]\<rparr>]\<rparr>
        2 [WithConsistencyLevel ClBounded]] \<and>
   fst (NewMilvus (table_deps no_failure True [] None None) 0 fresh_state) =
     Returned (Some 0, None) \<and>
   map fst (issued fresh_state
      (snd (NewMilvus (table_deps no_failure True [] None None) 0 fresh_state))) =
     [CallNewGrpcClient ''localhost:19530'',
      CallReleaseCollection ''docs'',
      CallHasCollection ''docs'']"
proof -
  have cfg0: "configs fresh_state 0 = Some docs_config"
    by (simp add: fresh_state_def)
  have conn: "NewGrpcClient (table_deps no_failure has [] None None) (log fresh_state)
                (Addr (Config_init docs_config)) = Inr (table_client no_failure has [])" for has
    by (simp add: table_deps_def no_failure_def)
  have has: "client_HasCollection (table_client no_failure has []) h n = Inr has" for has h n
    by (simp add: table_client_def no_failure_def)
  show ?thesis
    using NewMilvus_provisions_collection [OF cfg0 refl conn [of False] refl]
          NewMilvus_provisions_collection [OF cfg0 refl conn [of True] refl]
    by (simp add: has docs_init Sprintf_d_values fresh_state_def)
qed

text \<open>
  C8. \<open>NewMilvus\<close> runs \<open>Config.init\<close> on the caller's Config in place: the store
  afterwards holds the initialised Config at the caller's address and is otherwise as
  before. \<open>Addr\<close> becomes "localhost:19530" exactly when it was empty, \<open>Dim\<close> becomes 1536
  exactly when it was 0, and \<open>CollectionName\<close> is never changed.
\<close>

theorem NewMilvus_initialises_config_in_place:
  assumes "configs s p = Some conf0"
  shows "configs (snd (NewMilvus d p s)) = (configs s)(p \<mapsto> Config_init conf0) \<and>
         Addr (Config_init conf0) = (if Addr conf0 = [] then ''localhost:19530'' else Addr conf0) \<and>
         Dim (Config_init conf0) = (if Dim conf0 = 0 then 1536 else Dim conf0) \<and>
         CollectionName (Config_init conf0) = CollectionName conf0"
  by (simp add: NewMilvus_unfold [OF assms] Let_def Config_init_def split: sum.splits)

theorem NewMilvus_initialises_config_in_place_witness:
  "configs (snd (NewMilvus (table_deps no_failure True [] None None) 0 fresh_state)) 0 =
     Some \<lparr>CollectionName = ''docs'', Addr = ''localhost:19530'', Dim = 1536\<rparr> \<and>
   configs (snd (NewMilvus (table_deps no_failure True [] None None) 0
      (fresh_state\<lparr>configs := [0 \<mapsto> \<lparr>CollectionName = ''docs'', Addr = ''db:1'', Dim = 8\<rparr>]\<rparr>))) 0 =
     Some \<lparr>CollectionName = ''docs'', Addr = ''db:1'', Dim = 8\<rparr>"
proof -
  have a: "configs fresh_state 0 = Some docs_config"
    by (simp add: fresh_state_def)
  have b: "configs (fresh_state\<lparr>configs := [0 \<mapsto> \<lparr>CollectionName = ''docs'', Addr = ''db:1'', Dim = 8\<rparr>]\<rparr>) 0 =
             Some \<lparr>CollectionName = ''docs'', Addr = ''db:1'', Dim = 8\<rparr>"
    by simp
  show ?thesis
    using NewMilvus_initialises_config_in_place [OF a, of "table_deps no_failure True [] None None"]
          NewMilvus_initialises_config_in_place [OF b, of "table_deps no_failure True [] None None"]
    by (simp add: Config_init_def docs_config_def fresh_state_def)
qed

subsection \<open>LoadJSON\<close>

text \<open>
  C6. For every file name, \<open>LoadJSON\<close> reads that file; when the read fails, or the parse
  of what was read fails, it returns that error and has made no call but the read;
  otherwise it is \<open>Insert\<close> on exactly the parsed sections.
\<close>

theorem LoadJSON_reads_parses_inserts:
  "(\<forall>e. ReadFile d (log s) filename = Inl e \<longrightarrow>
      LoadJSON d m filename s =
        (Returned (Some e), s\<lparr>log := log s @ [(CallReadFile filename, Some e)]\<rparr>)) \<and>
   (\<forall>data e. ReadFile d (log s) filename = Inr data \<and> Unmarshal d data = Inl e \<longrightarrow>
      LoadJSON d m filename s =
        (Returned (Some e), s\<lparr>log := log s @ [(CallReadFile filename, None)]\<rparr>)) \<and>
   (\<forall>data sections. ReadFile d (log s) filename = Inr data \<and> Unmarshal d data = Inr sections \<longrightarrow>
      LoadJSON d m filename s =
        Insert d m sections (s\<lparr>log := log s @ [(CallReadFile filename, None)]\<rparr>))"
  by (simp add: LoadJSON_def call_defs error_of_def)

theorem LoadJSON_reads_parses_inserts_witness:
  "fst (LoadJSON (table_deps (fails_on is_CallReadFile (Error ''no such file'')) True [] None None)
          0 ''sections.json''
          (ready_state (fails_on is_CallReadFile (Error ''no such file'')) True [])) =
     Returned (Some (Error ''no such file'')) \<and>
   map fst (log (snd
     (LoadJSON (table_deps (fails_on is_CallReadFile (Error ''no such file'')) True [] None None)
          0 ''sections.json''
          (ready_state (fails_on is_CallReadFile (Error ''no such file'')) True [])))) =
     [CallReadFile ''sections.json''] \<and>
   LoadJSON (table_deps no_failure True [] None (Some (Error ''unexpected end of JSON input'')))
          0 ''sections.json'' (ready_state no_failure True []) =
     (Returned (Some (Error ''unexpected end of JSON input'')),
      (ready_state no_failure True [])\<lparr>log := [(CallReadFile ''sections.json'', None)]\<rparr>) \<and>
   LoadJSON (table_deps no_failure True [] None None) 0 ''sections.json''
          (ready_state no_failure True []) =
     Insert (table_deps no_failure True [] None None) 0 two_sections
       ((ready_state no_failure True [])\<lparr>log := [(CallReadFile ''sections.json'', None)]\<rparr>)"
proof -
  let ?f = "fails_on is_CallReadFile (Error ''no such file'')"
  have a: "ReadFile (table_deps ?f True [] None None) (log (ready_state ?f True []))
             ''sections.json'' = Inl (Error ''no such file'')"
    by (simp add: table_deps_def fails_on_def)
  have b: "ReadFile (table_deps no_failure True [] None je) (log (ready_state no_failure True []))
             ''sections.json'' = Inr ''[...]''" for je
    by (simp add: table_deps_def no_failure_def)
  have c: "Unmarshal (table_deps no_failure True [] None (Some (Error ''unexpected end of JSON input'')))
             ''[...]'' = Inl (Error ''unexpected end of JSON input'')"
    by (simp add: table_deps_def)
  have d: "Unmarshal (table_deps no_failure True [] None None) ''[...]'' = Inr two_sections"
    by (simp add: table_deps_def)
  have l: "log (ready_state fails True []) = []" for fails
    by (simp add: ready_state_def)
  show ?thesis
    using LoadJSON_reads_parses_inserts [of "table_deps ?f True [] None None"
            "ready_state ?f True []" "''sections.json''" 0] a
          LoadJSON_reads_parses_inserts [of
            "table_deps no_failure True [] None (Some (Error ''unexpected end of JSON input''))"
            "ready_state no_failure True []" "''sections.json''" 0] b c
          LoadJSON_reads_parses_inserts [of "table_deps no_failure True [] None None"
            "ready_state no_failure True []" "''sections.json''" 0] d
    by (simp add: l)
qed

subsection \<open>The receiver is only read\<close>

lemma Insert_frame:
  "configs (snd (Insert d m sections s)) = configs s \<and>
   milvuses (snd (Insert d m sections s)) = milvuses s"
proof (cases "receiver s m")
  case None
  then show ?thesis by (simp add: Insert_nil)
next
  case (Some a)
  then obtain c conf where "receiver s m = Some (c, conf)" by (cases a) simp
  then show ?thesis
    by (simp add: Insert_unfold Let_def split: option.splits sum.splits)
qed

lemma Query_frame:
  "configs (snd (Query d m embedding topK s)) = configs s \<and>
   milvuses (snd (Query d m embedding topK s)) = milvuses s"
proof (cases "receiver s m")
  case None
  then show ?thesis by (simp add: Query_nil)
next
  case (Some a)
  then obtain c conf where "receiver s m = Some (c, conf)" by (cases a) simp
  then show ?thesis
    by (simp add: Query_unfold Let_def split: option.splits sum.splits list.splits)
qed

lemma receiver_frame:
  "configs s' = configs s \<Longrightarrow> milvuses s' = milvuses s \<Longrightarrow> receiver s' m = receiver s m"
  by (simp add: receiver_def deref_Milvus_def)

text \<open>
  C7. \<open>Insert\<close>, \<open>Query\<close> and \<open>LoadJSON\<close> leave the store of Config and Milvus values as
  it was, on every path: the client handle of the receiver and the \<open>CollectionName\<close>,
  \<open>Addr\<close> and \<open>Dim\<close> of its Config are the same after the call as before.
\<close>

theorem operations_leave_Milvus_unchanged:
  "configs (snd (Insert d m sections s)) = configs s \<and>
   milvuses (snd (Insert d m sections s)) = milvuses s \<and>
   receiver (snd (Insert d m sections s)) m = receiver s m \<and>
   configs (snd (Query d m embedding topK s)) = configs s \<and>
   milvuses (snd (Query d m embedding topK s)) = milvuses s \<and>
   receiver (snd (Query d m embedding topK s)) m = receiver s m \<and>
   configs (snd (LoadJSON d m filename s)) = configs s \<and>
   milvuses (snd (LoadJSON d m filename s)) = milvuses s \<and>
   receiver (snd (LoadJSON d m filename s)) m = receiver s m"
proof -
  have i: "configs (snd (Insert d m sections s)) = configs s \<and>
           milvuses (snd (Insert d m sections s)) = milvuses s"
    by (rule Insert_frame)
  have q: "configs (snd (Query d m embedding topK s)) = configs s \<and>
           milvuses (snd (Query d m embedding topK s)) = milvuses s"
    by (rule Query_frame)
  have l: "configs (snd (LoadJSON d m filename s)) = configs s \<and>
           milvuses (snd (LoadJSON d m filename s)) = milvuses s"
    by (simp add: LoadJSON_def call_defs Insert_frame split: sum.splits)
  have ri: "receiver (snd (Insert d m sections s)) m = receiver s m"
    using i by (intro receiver_frame) simp_all
  have rq: "receiver (snd (Query d m embedding topK s)) m = receiver s m"
    using q by (intro receiver_frame) simp_all
  have rl: "receiver (snd (LoadJSON d m filename s)) m = receiver s m"
    using l by (intro receiver_frame) simp_all
  show ?thesis
    using i q l ri rq rl by blast
qed

theorem operations_leave_Milvus_unchanged_witness:
  "receiver (snd (Insert (table_deps no_failure True [a_result] None None) 0 two_sections
                    (ready_state no_failure True [a_result]))) 0 =
     Some (table_client no_failure True [a_result],
           \<lparr>CollectionName = ''docs'', Addr = ''localhost:19530'', Dim = 1536\<rparr>) \<and>
   receiver (snd (Query (table_deps no_failure True [a_result] None None) 0 [1, 2] 5
                    (ready_state no_failure True [a_result]))) 0 =
     Some (table_client no_failure True [a_result],
           \<lparr>CollectionName = ''docs'', Addr = ''localhost:19530'', Dim = 1536\<rparr>) \<and>
   receiver (snd (LoadJSON (table_deps no_failure True [a_result] None None) 0 ''sections.json''
                    (ready_state no_failure True [a_result]))) 0 =
     Some (table_client no_failure True [a_result],
           \<lparr>CollectionName = ''docs'', Addr = ''localhost:19530'', Dim = 1536\<rparr>)"
  using operations_leave_Milvus_unchanged [of "table_deps no_failure True [a_result] None None" 0
          two_sections "ready_state no_failure True [a_result]" "[1, 2]" 5 "''sections.json''"]
  by (simp add: ready_receiver docs_init)

subsection \<open>constructSimilaritiesFromResult\<close>

text \<open>
  The column of a name is a field of the result, and when the names of the fields are
  distinct it is the only field of that name and type.
\<close>

lemma int64_column_None: "int64_column n fs = None \<Longrightarrow> ColumnInt64 n vs \<notin> set fs"
  by (induction fs) (auto split: option.splits Column.splits if_splits)

lemma int64_column_member:
  "int64_column n fs = Some vs \<Longrightarrow> ColumnInt64 n vs \<in> set fs"
  by (induction fs) (auto split: option.splits Column.splits if_splits)

lemma int64_column_unique:
  assumes "distinct (map ColumnName fs)" and "ColumnInt64 n vs \<in> set fs"
  shows "int64_column n fs = Some vs"
proof (cases "int64_column n fs")
  case None
  with assms(2) show ?thesis by (simp add: int64_column_None)
next
  case (Some ws)
  then have "ColumnInt64 n ws \<in> set fs" by (rule int64_column_member)
  with assms have "ColumnInt64 n ws = ColumnInt64 n vs"
    by (metis ColumnName.simps(1) distinct_map inj_onD)
  with Some show ?thesis by simp
qed

lemma varchar_column_None: "varchar_column n fs = None \<Longrightarrow> ColumnVarChar n vs \<notin> set fs"
  by (induction fs) (auto split: option.splits Column.splits if_splits)

lemma varchar_column_member:
  "varchar_column n fs = Some vs \<Longrightarrow> ColumnVarChar n vs \<in> set fs"
  by (induction fs) (auto split: option.splits Column.splits if_splits)

lemma varchar_column_unique:
  assumes "distinct (map ColumnName fs)" and "ColumnVarChar n vs \<in> set fs"
  shows "varchar_column n fs = Some vs"
proof (cases "varchar_column n fs")
  case None
  with assms(2) show ?thesis by (simp add: varchar_column_None)
next
  case (Some ws)
  then have "ColumnVarChar n ws \<in> set fs" by (rule varchar_column_member)
  with assms have "ColumnVarChar n ws = ColumnVarChar n vs"
    by (metis ColumnName.simps(2) distinct_map inj_onD)
  with Some show ?thesis by simp
qed

lemma col_names_distinct:
  "idCol \<noteq> titleCol" "idCol \<noteq> headingCol" "idCol \<noteq> contentCol"
  "titleCol \<noteq> headingCol" "titleCol \<noteq> contentCol" "headingCol \<noteq> contentCol"
  by (simp_all add: idCol_def titleCol_def headingCol_def contentCol_def)

lemma assign_columns_eq:
  "assign_columns fs (iCol, tCol, hCol, cCol) =
     (override iCol (int64_column idCol fs),
      override tCol (varchar_column titleCol fs),
      override hCol (varchar_column headingCol fs),
      override cCol (varchar_column contentCol fs))"
proof (induction fs arbitrary: iCol tCol hCol cCol)
  case Nil
  show ?case by (simp add: override_def)
next
  case (Cons field rest)
  show ?case
    using col_names_distinct
    by (cases field) (auto simp: Cons.IH override_def split: option.splits)
qed

lemma assign_columns_initial:
  "assign_columns fs (None, None, None, None) =
     (int64_column idCol fs, varchar_column titleCol fs,
      varchar_column headingCol fs, varchar_column contentCol fs)"
  by (simp add: assign_columns_eq override_def split: option.splits)

lemma rows_complete:
  assumes "sint (ResultCount r) \<le> int (length ids)"
      and "sint (ResultCount r) \<le> int (length titles)"
      and "sint (ResultCount r) \<le> int (length headings)"
      and "sint (ResultCount r) \<le> int (length contents)"
      and "sint (ResultCount r) \<le> int (length (Scores r))"
      and "0 \<le> i"
  shows "rows widen r (Some ids, Some titles, Some headings, Some contents) i sims =
           Returned (sims @ map (similarity_at widen r ids titles headings contents)
                             [nat i..<nat (sint (ResultCount r))], None)"
  using assms(6)
proof (induction k \<equiv> "nat (sint (ResultCount r) - i)" arbitrary: i sims)
  case 0
  then have "\<not> i < sint (ResultCount r)" by simp
  then show ?case by (simp add: rows.simps [of widen r _ i sims])
next
  case (Suc k)
  then have lt: "i < sint (ResultCount r)" and k: "k = nat (sint (ResultCount r) - (i + 1))"
    by simp_all
  have step: "[nat i..<nat (sint (ResultCount r))] =
                nat i # [nat (i + 1)..<nat (sint (ResultCount r))]"
    using lt Suc.prems by (simp add: upt_conv_Cons nat_add_distrib)
  have "rows widen r (Some ids, Some titles, Some headings, Some contents) i sims =
          rows widen r (Some ids, Some titles, Some headings, Some contents) (i + 1)
            (sims @ [similarity_at widen r ids titles headings contents (nat i)])"
    using lt Suc.prems assms(1-5)
    by (subst rows.simps)
       (simp add: ValueByIdx_def similarity_at_def int_of_int64_def)
  also have "\<dots> = Returned ((sims @ [similarity_at widen r ids titles headings contents (nat i)]) @
                 map (similarity_at widen r ids titles headings contents)
                   [nat (i + 1)..<nat (sint (ResultCount r))], None)"
    using Suc.prems by (intro Suc.hyps(1) [OF k]) simp
  finally show ?case by (simp add: step)
qed

lemma construct_complete:
  assumes "int64_column idCol (ResultFields r) = Some ids"
      and "varchar_column titleCol (ResultFields r) = Some titles"
      and "varchar_column headingCol (ResultFields r) = Some headings"
      and "varchar_column contentCol (ResultFields r) = Some contents"
      and "sint (ResultCount r) \<le> int (length ids)"
      and "sint (ResultCount r) \<le> int (length titles)"
      and "sint (ResultCount r) \<le> int (length headings)"
      and "sint (ResultCount r) \<le> int (length contents)"
      and "sint (ResultCount r) \<le> int (length (Scores r))"
  shows "constructSimilaritiesFromResult d r =
           Returned (map (similarity_at (float64_of_float32 d) r ids titles headings contents)
                       [0..<nat (sint (ResultCount r))], None)"
  using rows_complete [OF assms(5-9), of 0 "float64_of_float32 d" "[]"] assms(1-4)
  by (simp add: constructSimilaritiesFromResult_def assign_columns_initial)

lemma rows_nil_pointer:
  assumes "0 < sint (ResultCount r)"
      and "iCol = None \<or>
           (\<exists>ids. iCol = Some ids \<and> ids \<noteq> [] \<and>
             (tCol = None \<or>
              (\<exists>titles. tCol = Some titles \<and> titles \<noteq> [] \<and>
                (hCol = None \<or>
                 (\<exists>headings. hCol = Some headings \<and> headings \<noteq> [] \<and> cCol = None)))))"
  shows "rows widen r (iCol, tCol, hCol, cCol) 0 [] = Panicked NilDereference"
  using assms
  by (subst rows.simps) (auto simp: ValueByIdx_def)

lemma columns_of_a_result:
  "int64_column idCol (ResultFields a_result) = Some [7, 3]"
  "varchar_column titleCol (ResultFields a_result) = Some [''Go'', ''Go'']"
  "varchar_column headingCol (ResultFields a_result) = Some [''Tools'', ''Intro'']"
  "varchar_column contentCol (ResultFields a_result) =
     Some [''gofmt formats.'', ''Go is a language.'']"
  "sint (ResultCount a_result) = 2"
  "Scores a_result = [5, 9]"
  by (simp_all add: a_result_def idCol_def titleCol_def headingCol_def contentCol_def)

text \<open>
  C9, as amended. Let the columns of a result be, for each of id (int64), title, heading
  and content (varchar), the last field of that name and type. When all four are there
  and each holds at least \<open>ResultCount\<close> values, and \<open>Scores\<close> holds at least
  \<open>ResultCount\<close> values, every lookup succeeds and the function returns \<open>ResultCount\<close>
  similarities (none when \<open>ResultCount\<close> is negative) and no error. When \<open>ResultCount\<close>
  is positive and, in the order id, title, heading, content, a column is absent or of
  another type while each column before it is there and not empty, the lookup in the
  first row dereferences a nil column pointer: the function panics and returns no error.
\<close>

theorem constructSimilarities_precondition:
  "(\<forall>ids titles headings contents.
      int64_column idCol (ResultFields r) = Some ids \<and>
      varchar_column titleCol (ResultFields r) = Some titles \<and>
      varchar_column headingCol (ResultFields r) = Some headings \<and>
      varchar_column contentCol (ResultFields r) = Some contents \<and>
      sint (ResultCount r) \<le> int (length ids) \<and>
      sint (ResultCount r) \<le> int (length titles) \<and>
      sint (ResultCount r) \<le> int (length headings) \<and>
      sint (ResultCount r) \<le> int (length contents) \<and>
      sint (ResultCount r) \<le> int (length (Scores r)) \<longrightarrow>
      (\<exists>sims. constructSimilaritiesFromResult d r = Returned (sims, None) \<and>
              length sims = nat (sint (ResultCount r)))) \<and>
   (0 < sint (ResultCount r) \<and>
    (int64_column idCol (ResultFields r) = None \<or>
     (\<exists>ids. int64_column idCol (ResultFields r) = Some ids \<and> ids \<noteq> [] \<and>
        (varchar_column titleCol (ResultFields r) = None \<or>
         (\<exists>titles. varchar_column titleCol (ResultFields r) = Some titles \<and> titles \<noteq> [] \<and>
            (varchar_column headingCol (ResultFields r) = None \<or>
             (\<exists>headings. varchar_column headingCol (ResultFields r) = Some headings \<and>
                headings \<noteq> [] \<and>
                varchar_column contentCol (ResultFields r) = None)))))) \<longrightarrow>
    constructSimilaritiesFromResult d r = Panicked NilDereference)"
proof (intro conjI allI impI)
  fix ids titles headings contents
  assume "int64_column idCol (ResultFields r) = Some ids \<and>
      varchar_column titleCol (ResultFields r) = Some titles \<and>
      varchar_column headingCol (ResultFields r) = Some headings \<and>
      varchar_column contentCol (ResultFields r) = Some contents \<and>
      sint (ResultCount r) \<le> int (length ids) \<and>
      sint (ResultCount r) \<le> int (length titles) \<and>
      sint (ResultCount r) \<le> int (length headings) \<and>
      sint (ResultCount r) \<le> int (length contents) \<and>
      sint (ResultCount r) \<le> int (length (Scores r))"
  then have "constructSimilaritiesFromResult d r =
           Returned (map (similarity_at (float64_of_float32 d) r ids titles headings contents)
                       [0..<nat (sint (ResultCount r))], None)"
    by (intro construct_complete) simp_all
  then show "\<exists>sims. constructSimilaritiesFromResult d r = Returned (sims, None) \<and>
              length sims = nat (sint (ResultCount r))"
    by simp
next
  assume "0 < sint (ResultCount r) \<and>
    (int64_column idCol (ResultFields r) = None \<or>
     (\<exists>ids. int64_column idCol (ResultFields r) = Some ids \<and> ids \<noteq> [] \<and>
        (varchar_column titleCol (ResultFields r) = None \<or>
         (\<exists>titles. varchar_column titleCol (ResultFields r) = Some titles \<and> titles \<noteq> [] \<and>
            (varchar_column headingCol (ResultFields r) = None \<or>
             (\<exists>headings. varchar_column headingCol (ResultFields r) = Some headings \<and>
                headings \<noteq> [] \<and>
                varchar_column contentCol (ResultFields r) = None))))))"
  then show "constructSimilaritiesFromResult d r = Panicked NilDereference"
    unfolding constructSimilaritiesFromResult_def assign_columns_initial
    by (intro rows_nil_pointer) simp_all
qed

theorem constructSimilarities_precondition_witness:
  "(\<exists>sims. constructSimilaritiesFromResult (table_deps no_failure True [] None None) a_result =
             Returned (sims, None) \<and> length sims = 2) \<and>
   constructSimilaritiesFromResult (table_deps no_failure True [] None None) bare_result =
     Panicked NilDereference"
proof -
  have bare: "0 < sint (ResultCount bare_result) \<and>
              int64_column idCol (ResultFields bare_result) = None"
    by (simp add: bare_result_def)
  show ?thesis
    using constructSimilarities_precondition [of a_result "table_deps no_failure True [] None None"]
          constructSimilarities_precondition [of bare_result "table_deps no_failure True [] None None"]
          bare
    by (simp add: columns_of_a_result)
qed

text \<open>
  The precondition on the four columns alone is not enough, and an absent column does not
  always mean a panic: with the four columns complete and no score, the read of
  \<open>Scores[0]\<close> is out of range; with an empty id column and no title column, the id
  lookup returns its error before the title pointer is used.
\<close>

theorem constructSimilarities_counterexample:
  "int64_column idCol (ResultFields scoreless_result) = Some [7] \<and>
   varchar_column titleCol (ResultFields scoreless_result) = Some [''Go''] \<and>
   varchar_column headingCol (ResultFields scoreless_result) = Some [''Tools''] \<and>
   varchar_column contentCol (ResultFields scoreless_result) = Some [''gofmt formats.''] \<and>
   sint (ResultCount scoreless_result) = 1 \<and>
   constructSimilaritiesFromResult (table_deps no_failure True [] None None) scoreless_result =
     Panicked IndexOutOfRange \<and>
   varchar_column titleCol (ResultFields short_id_result) = None \<and>
   sint (ResultCount short_id_result) = 1 \<and>
   constructSimilaritiesFromResult (table_deps no_failure True [] None None) short_id_result =
     Returned ([], Some (Error ''index out of range''))"
  by (simp add: constructSimilaritiesFromResult_def scoreless_result_def short_id_result_def
                rows.simps ValueByIdx_def idCol_def titleCol_def headingCol_def contentCol_def)

subsection \<open>Query: the result\<close>

text \<open>
  C2, as amended. When the load succeeds and the search returns at least one result, and
  the first result has its id, title, heading and content columns (the last field of that
  name and type), each with at least \<open>ResultCount\<close> values, and at least \<open>ResultCount\<close>
  scores, \<open>Query\<close> returns, with no error, a list of \<open>ResultCount\<close> similarities in the
  order of the rows: similarity \<open>i\<close> has the title, heading and content of row \<open>i\<close>, the
  id of row \<open>i\<close> and the score of row \<open>i\<close>, widened.
\<close>

theorem Query_reshapes_first_result:
  assumes "receiver s m = Some (c, conf)"
      and "client_LoadCollection c (log s) (CollectionName conf) False = None"
      and "client_Search c (log s @ [(CallLoadCollection (CollectionName conf) False, None)])
             (CollectionName conf) [] [] [idCol, titleCol, headingCol, contentCol]
             [map (float32_of_float64 d) embedding] embeddingCol L2 topK
             (fst (NewIndexFlatSearchParam d)) = Inr (r # rest)"
      and "int64_column idCol (ResultFields r) = Some ids"
      and "varchar_column titleCol (ResultFields r) = Some titles"
      and "varchar_column headingCol (ResultFields r) = Some headings"
      and "varchar_column contentCol (ResultFields r) = Some contents"
      and "sint (ResultCount r) \<le> int (length ids)"
      and "sint (ResultCount r) \<le> int (length titles)"
      and "sint (ResultCount r) \<le> int (length headings)"
      and "sint (ResultCount r) \<le> int (length contents)"
      and "sint (ResultCount r) \<le> int (length (Scores r))"
  shows "\<exists>sims. fst (Query d m embedding topK s) = Returned (sims, None) \<and>
           length sims = nat (sint (ResultCount r)) \<and>
           (\<forall>i<length sims.
              Title (Section (sims ! i)) = titles ! i \<and>
              Heading (Section (sims ! i)) = headings ! i \<and>
              Content (Section (sims ! i)) = contents ! i \<and>
              ID (sims ! i) = ids ! i \<and>
              Score (sims ! i) = float64_of_float32 d (Scores r ! i))"
proof -
  have "fst (Query d m embedding topK s) = constructSimilaritiesFromResult d r"
    using assms(2,3) by (simp add: Query_unfold [OF assms(1)] Let_def)
  also have "\<dots> = Returned (map (similarity_at (float64_of_float32 d) r ids titles headings contents)
                       [0..<nat (sint (ResultCount r))], None)"
    by (rule construct_complete [OF assms(4-12)])
  finally show ?thesis
    by (simp add: similarity_at_def)
qed

theorem Query_reshapes_first_result_witness:
  "\<exists>sims. fst (Query (table_deps no_failure True [a_result] None None) 0 [1, 2] 5
                (ready_state no_failure True [a_result])) = Returned (sims, None) \<and>
          length sims = 2 \<and>
          Title (Section (sims ! 1)) = ''Go'' \<and> Heading (Section (sims ! 1)) = ''Intro'' \<and>
          Content (Section (sims ! 1)) = ''Go is a language.'' \<and> ID (sims ! 1) = 3 \<and>
          Score (sims ! 1) = 9"
proof -
  let ?d = "table_deps no_failure True [a_result] None None"
  let ?s = "ready_state no_failure True [a_result]"
  let ?c = "table_client no_failure True [a_result]"
  have load: "client_LoadCollection ?c (log ?s) (CollectionName (Config_init docs_config)) False = None"
    by (simp add: table_client_def no_failure_def)
  have search: "client_Search ?c
       (log ?s @ [(CallLoadCollection (CollectionName (Config_init docs_config)) False, None)])
       (CollectionName (Config_init docs_config)) [] [] [idCol, titleCol, headingCol, contentCol]
       [map (float32_of_float64 ?d) [1, 2]] embeddingCol L2 5
       (fst (NewIndexFlatSearchParam ?d)) = Inr (a_result # [])"
    by (simp add: table_client_def no_failure_def)
  have n: "sint (ResultCount a_result) \<le> int (length [7, 3 :: int64])"
          "sint (ResultCount a_result) \<le> int (length [''Go'', ''Go''])"
          "sint (ResultCount a_result) \<le> int (length [''Tools'', ''Intro''])"
          "sint (ResultCount a_result) \<le> int (length [''gofmt formats.'', ''Go is a language.''])"
          "sint (ResultCount a_result) \<le> int (length (Scores a_result))"
    by (simp_all add: columns_of_a_result)
  from Query_reshapes_first_result [OF ready_receiver load search columns_of_a_result(1-4) n]
  show ?thesis
  proof (elim exE conjE)
    fix sims
    assume res: "fst (Query ?d 0 [1, 2] 5 ?s) = Returned (sims, None)"
       and len: "length sims = nat (sint (ResultCount a_result))"
       and rows: "\<forall>i<length sims.
              Title (Section (sims ! i)) = [''Go'', ''Go''] ! i \<and>
              Heading (Section (sims ! i)) = [''Tools'', ''Intro''] ! i \<and>
              Content (Section (sims ! i)) = [''gofmt formats.'', ''Go is a language.''] ! i \<and>
              ID (sims ! i) = [7, 3] ! i \<and>
              Score (sims ! i) = float64_of_float32 ?d (Scores a_result ! i)"
    from len have len2: "length sims = 2"
      by (simp add: columns_of_a_result)
    from rows len2 have "Title (Section (sims ! 1)) = ''Go'' \<and> Heading (Section (sims ! 1)) = ''Intro'' \<and>
          Content (Section (sims ! 1)) = ''Go is a language.'' \<and> ID (sims ! 1) = 3 \<and>
          Score (sims ! 1) = 9"
      by (simp add: columns_of_a_result table_deps_def)
    with res len2 show ?thesis by blast
  qed
qed

text \<open>
  Without the condition on the result the statement fails: a result with one row and no
  column makes \<open>Query\<close> panic on a nil column pointer.
\<close>

theorem Query_reshapes_counterexample:
  "fst (Query (table_deps no_failure True [bare_result] None None) 0 [1, 2] 5
          (ready_state no_failure True [bare_result])) = Panicked NilDereference"
  by (simp add: Query_unfold [OF ready_receiver] Let_def table_client_def no_failure_def
                constructSimilaritiesFromResult_def bare_result_def rows.simps ValueByIdx_def)

subsection \<open>Errors of the client\<close>

lemma Insert_errors_returned:
  "\<forall>ev\<in>set (issued s (snd (Insert d m sections s))).
     \<forall>e. snd ev = Some e \<longrightarrow> fst (Insert d m sections s) = Returned (Some e)"
proof (cases "receiver s m")
  case None
  then show ?thesis by (simp add: Insert_nil issued_def)
next
  case (Some a)
  then obtain c conf where "receiver s m = Some (c, conf)" by (cases a) simp
  then show ?thesis
    by (auto simp: Insert_unfold issued_def Let_def split: option.splits sum.splits)
qed

lemma Query_errors_returned:
  "\<forall>ev\<in>set (issued s (snd (Query d m embedding topK s))).
     \<forall>e. snd ev = Some e \<longrightarrow> fst (Query d m embedding topK s) = Returned ([], Some e)"
proof (cases "receiver s m")
  case None
  then show ?thesis by (simp add: Query_nil issued_def)
next
  case (Some a)
  then obtain c conf where "receiver s m = Some (c, conf)" by (cases a) simp
  then show ?thesis
    by (auto simp: Query_unfold issued_def Let_def error_of_def
             split: option.splits sum.splits list.splits)
qed

lemma NewMilvus_errors_returned:
  "\<forall>ev\<in>set (issued s (snd (NewMilvus d p s))).
     \<forall>e. snd ev = Some e \<longrightarrow>
       is_CallReleaseCollection (fst ev) \<or> fst (NewMilvus d p s) = Returned (None, Some e)"
proof (cases "configs s p")
  case None
  then show ?thesis by (simp add: NewMilvus_nil issued_def)
next
  case (Some conf0)
  then show ?thesis
    by (auto simp: NewMilvus_unfold issued_def Let_def error_of_def
             split: option.splits sum.splits)
qed

lemma Query_ignores_param_error:
  "Query (d\<lparr>NewIndexFlatSearchParam := (fst (NewIndexFlatSearchParam d), e)\<rparr>) m embedding topK s =
   Query d m embedding topK s"
proof (cases "receiver s m")
  case None
  then show ?thesis by (simp add: Query_nil)
next
  case (Some a)
  then obtain c conf where "receiver s m = Some (c, conf)" by (cases a) simp
  then show ?thesis
    by (simp add: Query_unfold Let_def constructSimilaritiesFromResult_def
             split: option.splits sum.splits list.splits)
qed

text \<open>
  C3, as amended. Every error that a call returned during \<open>Insert\<close> or \<open>Query\<close> is what
  the operation returns, unchanged; the same holds for \<open>NewMilvus\<close> and every call but
  its \<open>ReleaseCollection\<close>, whose error is dropped. \<open>Query\<close> also drops the error of
  \<open>NewIndexFlatSearchParam\<close>: whatever that error is, \<open>Query\<close> does the same.
\<close>

theorem client_errors_returned_except_discarded:
  "(\<forall>ev\<in>set (issued s (snd (Insert d m sections s))).
      \<forall>e. snd ev = Some e \<longrightarrow> fst (Insert d m sections s) = Returned (Some e)) \<and>
   (\<forall>ev\<in>set (issued s (snd (Query d m embedding topK s))).
      \<forall>e. snd ev = Some e \<longrightarrow> fst (Query d m embedding topK s) = Returned ([], Some e)) \<and>
   (\<forall>ev\<in>set (issued s (snd (NewMilvus d p s))).
      \<forall>e. snd ev = Some e \<longrightarrow>
        is_CallReleaseCollection (fst ev) \<or> fst (NewMilvus d p s) = Returned (None, Some e)) \<and>
   (\<forall>e. Query (d\<lparr>NewIndexFlatSearchParam := (fst (NewIndexFlatSearchParam d), e)\<rparr>)
           m embedding topK s =
         Query d m embedding topK s)"
proof (intro conjI)
  show "\<forall>ev\<in>set (issued s (snd (Insert d m sections s))).
      \<forall>e. snd ev = Some e \<longrightarrow> fst (Insert d m sections s) = Returned (Some e)"
    by (rule Insert_errors_returned)
  show "\<forall>ev\<in>set (issued s (snd (Query d m embedding topK s))).
      \<forall>e. snd ev = Some e \<longrightarrow> fst (Query d m embedding topK s) = Returned ([], Some e)"
    by (rule Query_errors_returned)
  show "\<forall>ev\<in>set (issued s (snd (NewMilvus d p s))).
      \<forall>e. snd ev = Some e \<longrightarrow>
        is_CallReleaseCollection (fst ev) \<or> fst (NewMilvus d p s) = Returned (None, Some e)"
    by (rule NewMilvus_errors_returned)
  show "\<forall>e. Query (d\<lparr>NewIndexFlatSearchParam := (fst (NewIndexFlatSearchParam d), e)\<rparr>)
           m embedding topK s =
         Query d m embedding topK s"
    by (simp add: Query_ignores_param_error)
qed

theorem client_errors_returned_except_discarded_witness:
  "fst (Insert (table_deps (fails_on is_CallCreateIndex (Error ''index exists'')) True [] None None)
          0 two_sections
          (ready_state (fails_on is_CallCreateIndex (Error ''index exists'')) True [])) =
     Returned (Some (Error ''index exists'')) \<and>
   fst (Query (table_deps (fails_on is_CallSearch (Error ''timeout'')) True [] None None)
          0 [1, 2] 5 (ready_state (fails_on is_CallSearch (Error ''timeout'')) True [])) =
     Returned ([], Some (Error ''timeout'')) \<and>
   fst (NewMilvus (table_deps (fails_on is_CallHasCollection (Error ''unavailable'')) True [] None None)
          0 fresh_state) =
     Returned (None, Some (Error ''unavailable''))"
proof -
  let ?fi = "fails_on is_CallCreateIndex (Error ''index exists'')"
  let ?fq = "fails_on is_CallSearch (Error ''timeout'')"
  let ?fh = "fails_on is_CallHasCollection (Error ''unavailable'')"
  have cfg0: "configs fresh_state 0 = Some docs_config"
    by (simp add: fresh_state_def)
  have i: "(CallCreateIndex ''docs'' ''embedding'' (Index ''IVF_FLAT'' [(''nlist'', ''128'')]) False,
            Some (Error ''index exists''))
           \<in> set (issued (ready_state ?fi True [])
                   (snd (Insert (table_deps ?fi True [] None None) 0 two_sections
                           (ready_state ?fi True []))))"
    by (simp add: Insert_unfold [OF ready_receiver] Let_def issued_def table_client_def
                  table_deps_def fails_on_def docs_init embeddingCol_def)
  have q: "(CallSearch ''docs'' [] [] [''id'', ''title'', ''heading'', ''content''] [[1, 2]]
              ''embedding'' L2 5 (Some (SearchParam [])), Some (Error ''timeout''))
           \<in> set (issued (ready_state ?fq True [])
                   (snd (Query (table_deps ?fq True [] None None) 0 [1, 2] 5
                           (ready_state ?fq True []))))"
    by (simp add: Query_unfold [OF ready_receiver] Let_def issued_def table_client_def
                  table_deps_def fails_on_def docs_init error_of_def idCol_def titleCol_def
                  headingCol_def contentCol_def embeddingCol_def)
  have h: "(CallHasCollection ''docs'', Some (Error ''unavailable''))
           \<in> set (issued fresh_state
                   (snd (NewMilvus (table_deps ?fh True [] None None) 0 fresh_state)))"
    by (simp add: NewMilvus_unfold [OF cfg0] Let_def issued_def table_client_def
                  table_deps_def fails_on_def docs_init error_of_def)
  show ?thesis
    using client_errors_returned_except_discarded
            [of "ready_state ?fi True []" "table_deps ?fi True [] None None" 0 two_sections]
          client_errors_returned_except_discarded
            [of "ready_state ?fq True []" "table_deps ?fq True [] None None" 0 _ "[1, 2]" 5]
          client_errors_returned_except_discarded
            [of fresh_state "table_deps ?fh True [] None None" 0 _ _ _ 0]
          i q h
    by fastforce
qed

text \<open>
  Two errors that are not returned: the release in \<open>NewMilvus\<close> fails and \<open>NewMilvus\<close>
  returns the new Milvus and no error; \<open>NewIndexFlatSearchParam\<close> fails and \<open>Query\<close>
  returns the similarities and no error.
\<close>

theorem client_errors_counterexample:
  "(CallReleaseCollection ''docs'', Some (Error ''not loaded''))
     \<in> set (issued fresh_state
          (snd (NewMilvus
                  (table_deps (fails_on is_CallReleaseCollection (Error ''not loaded'')) True []
                     None None) 0 fresh_state))) \<and>
   fst (NewMilvus
          (table_deps (fails_on is_CallReleaseCollection (Error ''not loaded'')) True [] None None)
          0 fresh_state) = Returned (Some 0, None) \<and>
   NewIndexFlatSearchParam
     ((table_deps no_failure True [a_result] None None)
        \<lparr>NewIndexFlatSearchParam := (None, Some (Error ''bad parameter''))\<rparr>) =
     (None, Some (Error ''bad parameter'')) \<and>
   fst (Query ((table_deps no_failure True [a_result] None None)
                 \<lparr>NewIndexFlatSearchParam := (None, Some (Error ''bad parameter''))\<rparr>)
          0 [1, 2] 5 (ready_state no_failure True [a_result])) =
     Returned
       ([\<lparr>Section = \<lparr>Title = ''Go'', Heading = ''Tools'', Content = ''gofmt formats.'',
                      Embedding = []\<rparr>, ID = 7, Score = 5\<rparr>,
         \<lparr>Section = \<lparr>Title = ''Go'', Heading = ''Intro'', Content = ''Go is a language.'',
                      Embedding = []\<rparr>, ID = 3, Score = 9\<rparr>], None)"
proof -
  have cfg0: "configs fresh_state 0 = Some docs_config"
    by (simp add: fresh_state_def)
  have len: "length (milvuses fresh_state) = 0" "log fresh_state = []"
    by (simp_all add: fresh_state_def)
  have new: "(CallReleaseCollection ''docs'', Some (Error ''not loaded''))
     \<in> set (issued fresh_state
          (snd (NewMilvus
                  (table_deps (fails_on is_CallReleaseCollection (Error ''not loaded'')) True []
                     None None) 0 fresh_state))) \<and>
   fst (NewMilvus
          (table_deps (fails_on is_CallReleaseCollection (Error ''not loaded'')) True [] None None)
          0 fresh_state) = Returned (Some 0, None)"
    by (simp add: NewMilvus_unfold [OF cfg0] Let_def issued_def table_client_def
                  table_deps_def fails_on_def docs_init error_of_def len)
  have query: "fst (Query ((table_deps no_failure True [a_result] None None)
                 \<lparr>NewIndexFlatSearchParam := (None, Some (Error ''bad parameter''))\<rparr>)
          0 [1, 2] 5 (ready_state no_failure True [a_result])) =
     Returned
       ([\<lparr>Section = \<lparr>Title = ''Go'', Heading = ''Tools'', Content = ''gofmt formats.'',
                      Embedding = []\<rparr>, ID = 7, Score = 5\<rparr>,
         \<lparr>Section = \<lparr>Title = ''Go'', Heading = ''Intro'', Content = ''Go is a language.'',
                      Embedding = []\<rparr>, ID = 3, Score = 9\<rparr>], None)"
    by (simp add: Query_unfold [OF ready_receiver] Let_def table_client_def no_failure_def
                  table_deps_def constructSimilaritiesFromResult_def a_result_def rows.simps
                  ValueByIdx_def int_of_int64_def idCol_def titleCol_def headingCol_def
                  contentCol_def)
  show ?thesis
    using new query by simp
qed

end
